theory Spec2Isabelle
  imports Main "HOL-Library.Word" "HOL-Library.Tree"
begin

unbundle bit_operations_syntax

section \<open>The Android binder driver (drivers/staging/android/binder.c)\<close>

text \<open>
  The driver is embedded as functions on an explicit kernel state. Objects that the C code
  reaches through pointers (\<^verbatim>\<open>binder_proc\<close>, \<^verbatim>\<open>binder_thread\<close>, \<^verbatim>\<open>binder_node\<close>,
  \<^verbatim>\<open>binder_ref\<close>, \<^verbatim>\<open>binder_transaction\<close>, \<^verbatim>\<open>binder_ref_death\<close>) live in stores indexed
  by their address, a natural number; a nullable pointer is an \<open>option\<close>. Record fields
  carry the C field name behind a prefix naming the struct (\<open>th_looper\<close> is
  \<^verbatim>\<open>thread->looper\<close>, \<open>p_requested_threads\<close> is \<^verbatim>\<open>proc->requested_threads\<close>).

  The target is the 32-bit ARM ``goldfish'' platform: \<^verbatim>\<open>size_t\<close>, \<^verbatim>\<open>unsigned long\<close> and
  pointers are 32 bits wide. Quantities of type \<^verbatim>\<open>size_t\<close> are natural numbers below
  \<open>2 ^ 32\<close>, with the wrap-around written out where the C arithmetic can overflow;
  \<^verbatim>\<open>uint32_t\<close> protocol words are \<open>32 word\<close>; C \<^verbatim>\<open>int\<close> counters are \<open>int\<close>.

  Not part of the state: \<^verbatim>\<open>printk\<close> output, \<^verbatim>\<open>binder_stats\<close>, the transaction
  logs, and the scheduling priority handled by \<^verbatim>\<open>binder_set_nice\<close>; none of them is
  read back by the code paths below.
\<close>

subsection \<open>Protocol constants (binder.h)\<close>

type_synonym u32 = "32 word"

text \<open>\<^verbatim>\<open>_IO('r', nr)\<close> and \<^verbatim>\<open>_IOR('r', nr, type)\<close> of the generic ioctl encoding:
  direction in bits 30-31, size in bits 16-29, type in bits 8-15, number in bits 0-7.\<close>

definition IOC :: "nat \<Rightarrow> nat \<Rightarrow> nat \<Rightarrow> nat \<Rightarrow> u32" where
  "IOC dir ty nr sz = of_nat (dir * 2 ^ 30 + sz * 2 ^ 16 + ty * 2 ^ 8 + nr)"

definition IO_r :: "nat \<Rightarrow> u32" where
  "IO_r nr = IOC 0 114 nr 0"

definition IOR_r :: "nat \<Rightarrow> nat \<Rightarrow> u32" where
  "IOR_r nr sz = IOC 2 114 nr sz"

definition BR_ERROR :: u32 where "BR_ERROR = IOR_r 0 4"
definition BR_OK :: u32 where "BR_OK = IO_r 1"
definition BR_TRANSACTION :: u32 where "BR_TRANSACTION = IOR_r 2 40"
definition BR_REPLY :: u32 where "BR_REPLY = IOR_r 3 40"
definition BR_DEAD_REPLY :: u32 where "BR_DEAD_REPLY = IO_r 5"
definition BR_TRANSACTION_COMPLETE :: u32 where "BR_TRANSACTION_COMPLETE = IO_r 6"
definition BR_INCREFS :: u32 where "BR_INCREFS = IOR_r 7 8"
definition BR_ACQUIRE :: u32 where "BR_ACQUIRE = IOR_r 8 8"
definition BR_RELEASE :: u32 where "BR_RELEASE = IOR_r 9 8"
definition BR_DECREFS :: u32 where "BR_DECREFS = IOR_r 10 8"
definition BR_NOOP :: u32 where "BR_NOOP = IO_r 12"
definition BR_SPAWN_LOOPER :: u32 where "BR_SPAWN_LOOPER = IO_r 13"
definition BR_DEAD_BINDER :: u32 where "BR_DEAD_BINDER = IOR_r 15 4"
definition BR_CLEAR_DEATH_NOTIFICATION_DONE :: u32 where
  "BR_CLEAR_DEATH_NOTIFICATION_DONE = IOR_r 16 4"
definition BR_FAILED_REPLY :: u32 where "BR_FAILED_REPLY = IO_r 17"

text \<open>\<^verbatim>\<open>enum transaction_flags\<close>.\<close>

definition TF_ONE_WAY :: u32 where "TF_ONE_WAY = 1"
definition TF_ACCEPT_FDS :: u32 where "TF_ACCEPT_FDS = 16"

text \<open>The errno values returned by the functions below.\<close>

definition EINVAL :: int where "EINVAL = 22"
definition EAGAIN :: int where "EAGAIN = 11"
definition EFAULT :: int where "EFAULT = 14"

subsection \<open>Data model\<close>

text \<open>\<^verbatim>\<open>struct binder_work\<close> is embedded in a transaction, a node or a death record, or
  stands alone as a completion item; a work item is named by its container. The \<^verbatim>\<open>type\<close>
  tag is fixed by the container except for death records, which carry it as a field.\<close>

datatype binder_work =
    W_transaction nat
  | W_transaction_complete nat
  | W_node nat
  | W_death nat

datatype work_type =
    BINDER_WORK_TRANSACTION
  | BINDER_WORK_TRANSACTION_COMPLETE
  | BINDER_WORK_NODE
  | BINDER_WORK_DEAD_BINDER
  | BINDER_WORK_DEAD_BINDER_AND_CLEAR
  | BINDER_WORK_CLEAR_DEATH_NOTIFICATION

text \<open>The list heads a work item can be queued on.\<close>

datatype list_head =
    Thread_todo nat
  | Proc_todo nat
  | Node_async_todo nat
  | Proc_delivered_death nat

text \<open>The \<^verbatim>\<open>BINDER_LOOPER_STATE_*\<close> bits of \<^verbatim>\<open>thread->looper\<close>; the bit set is a set
  of flags: \<^verbatim>\<open>|=\<close> inserts, \<^verbatim>\<open>&\<close> tests membership, \<^verbatim>\<open>&= ~\<close> removes.\<close>

datatype looper_state =
    BINDER_LOOPER_STATE_REGISTERED
  | BINDER_LOOPER_STATE_ENTERED
  | BINDER_LOOPER_STATE_EXITED
  | BINDER_LOOPER_STATE_INVALID
  | BINDER_LOOPER_STATE_WAITING
  | BINDER_LOOPER_STATE_NEED_RETURN

record binder_thread =
  th_proc :: nat
  th_pid :: int
  th_looper :: "looper_state set"
  th_transaction_stack :: "nat option"
  th_return_error :: u32
  th_return_error2 :: u32

record binder_node =
  n_debug_id :: int
  n_proc :: "nat option"
  n_refs :: "nat list"
  n_internal_strong_refs :: int
  n_local_strong_refs :: int
  n_local_weak_refs :: int
  n_has_strong_ref :: bool
  n_has_weak_ref :: bool
  n_pending_strong_ref :: bool
  n_pending_weak_ref :: bool
  n_cookie :: u32
  n_ptr :: u32
  n_has_async_transaction :: bool
  n_accept_fds :: bool
  n_min_priority :: int

record binder_ref_death =
  d_work_type :: "work_type option"
  d_cookie :: u32

record binder_ref =
  r_debug_id :: int
  r_node :: nat
  r_desc :: nat
  r_proc :: nat
  r_strong :: int
  r_weak :: int
  r_death :: "nat option"


text \<open>\<^verbatim>\<open>struct binder_buffer\<close>: a header inside the arena of a process. \<open>b_data\<close> is the
  payload behind \<^verbatim>\<open>buffer->data\<close>, read in 32-bit words (word \<open>i\<close> is at byte offset
  \<open>4 * i\<close>); \<open>b_offsets\<close> is the offsets array that follows the payload at
  \<^verbatim>\<open>ALIGN(data_size, sizeof(void *))\<close>, entry by entry.\<close>

record binder_buffer =
  b_free :: bool
  b_transaction :: "nat option"
  b_target_node :: "nat option"
  b_allow_user_free :: bool
  b_async_transaction :: bool
  b_debug_id :: int
  b_data :: "nat \<Rightarrow> u32"
  b_offsets :: "nat \<Rightarrow> u32"
  b_data_size :: nat
  b_offsets_size :: nat

text \<open>A pointer to a buffer names the process whose arena holds it and the address of the
  header there.\<close>

type_synonym buffer_ptr = "nat \<times> nat"

record binder_transaction =
  t_debug_id :: int
  t_need_reply :: bool
  t_from :: "nat option"
  t_to_proc :: "nat option"
  t_to_thread :: "nat option"
  t_buffer :: "buffer_ptr option"
  t_code :: u32
  t_flags :: u32
  t_sender_euid :: u32
  t_from_parent :: "nat option"
  t_to_parent :: "nat option"

text \<open>The part of \<^verbatim>\<open>struct files_struct\<close> that the fd helpers copied into binder.c use:
  the open-descriptor bitmap, the file pointers, \<^verbatim>\<open>next_fd\<close>, and the
  \<^verbatim>\<open>RLIMIT_NOFILE\<close> limit of the owning task. The descriptor table is taken to be
  large enough for every descriptor below that limit, so that \<^verbatim>\<open>expand_files\<close> has nothing
  to do.\<close>

record files_struct =
  fs_open_fds :: "nat set"
  fs_fd :: "nat \<Rightarrow> nat option"
  fs_next_fd :: nat
  fs_rlim_cur :: nat

text \<open>\<^verbatim>\<open>struct binder_proc\<close>. The red-black trees keyed by a unique key (\<open>p_nodes\<close> by
  \<^verbatim>\<open>ptr\<close>, \<open>p_refs_by_desc\<close>, \<open>p_refs_by_node\<close>, \<open>p_allocated_buffers\<close> by address)
  are kept as the list of their elements in key order; \<open>p_euid\<close> is
  \<^verbatim>\<open>proc->tsk->cred->euid\<close>; \<open>p_free_buffers\<close>, keyed by the
  buffer size, where ties occur, is a binary tree that the search descends as the C loop
  does. \<open>p_buffers\<close> is the address-ordered list \<^verbatim>\<open>proc->buffers\<close>, \<open>p_bufs\<close> the headers
  stored in the arena, \<open>p_pages\<close> the set of page indices with a page installed.
  \<open>p_files\<close> is the pointer \<^verbatim>\<open>proc->files\<close> into the store of descriptor tables.
  \<open>p_crashed\<close> is not a C field: it records that the arena code of this process reached a
  \<^verbatim>\<open>BUG_ON\<close> whose condition held.\<close>

record binder_proc =
  p_pid :: int
  p_euid :: u32
  p_files :: "nat option"
  p_buffer :: "nat option"
  p_buffer_size :: nat
  p_vma :: bool
  p_user_buffer_offset :: int
  p_pages :: "nat set"
  p_buffers :: "nat list"
  p_free_buffers :: "nat tree"
  p_allocated_buffers :: "nat list"
  p_bufs :: "nat \<Rightarrow> binder_buffer"
  p_free_async_space :: nat
  p_max_threads :: int
  p_requested_threads :: int
  p_requested_threads_started :: int
  p_ready_threads :: int
  p_nodes :: "nat list"
  p_refs_by_desc :: "nat list"
  p_refs_by_node :: "nat list"
  p_crashed :: bool

text \<open>Wait queues, for the log of \<^verbatim>\<open>wake_up_interruptible\<close> calls.\<close>

datatype wait_queue = Thread_wait nat | Proc_wait nat

text \<open>The kernel state. \<open>files\<close> holds the descriptor tables of the tasks, by address.
  \<open>queue\<close> gives the content of every list head and \<open>linked\<close> the
  list a work item is currently on (\<^verbatim>\<open>list_empty(&w->entry)\<close> is \<open>linked st w = None\<close>).
  \<open>heap\<close> is the set of live \<^verbatim>\<open>kzalloc\<close> addresses, \<open>kmem_next\<close> the next fresh address
  and \<open>kmem_avail\<close> the number of allocations that will still succeed. \<open>user_errors\<close>
  counts the calls of \<^verbatim>\<open>binder_user_error\<close>, \<open>wakeups\<close> logs the wake-up calls, and
  \<open>crashed\<close> records that a \<^verbatim>\<open>BUG()\<close> or a NULL dereference was reached: the kernel stops
  the thread there, and what the model computes after it has no meaning.\<close>

record binder_state =
  procs :: "nat \<Rightarrow> binder_proc"
  threads :: "nat \<Rightarrow> binder_thread"
  nodes :: "nat \<Rightarrow> binder_node"
  refs :: "nat \<Rightarrow> binder_ref"
  transactions :: "nat \<Rightarrow> binder_transaction"
  deaths :: "nat \<Rightarrow> binder_ref_death"
  files :: "nat \<Rightarrow> files_struct"
  queue :: "list_head \<Rightarrow> binder_work list"
  linked :: "binder_work \<Rightarrow> list_head option"
  binder_context_mgr_node :: "nat option"
  binder_last_id :: int
  binder_dead_nodes :: "nat list"
  binder_stop_on_user_error :: int
  user_errors :: nat
  crashed :: bool
  wakeups :: "wait_queue list"
  heap :: "nat set"
  kmem_next :: nat
  kmem_avail :: nat

subsection \<open>Zero-filled objects and the state at module load\<close>

text \<open>What \<^verbatim>\<open>kzalloc\<close> hands out: every field zero, every pointer NULL.\<close>

definition zero_thread :: binder_thread where
  "zero_thread = \<lparr>th_proc = 0, th_pid = 0, th_looper = {}, th_transaction_stack = None,
     th_return_error = 0, th_return_error2 = 0\<rparr>"

definition zero_node :: binder_node where
  "zero_node = \<lparr>n_debug_id = 0, n_proc = None, n_refs = [], n_internal_strong_refs = 0,
     n_local_strong_refs = 0, n_local_weak_refs = 0, n_has_strong_ref = False,
     n_has_weak_ref = False, n_pending_strong_ref = False, n_pending_weak_ref = False,
     n_cookie = 0, n_ptr = 0, n_has_async_transaction = False, n_accept_fds = False,
     n_min_priority = 0\<rparr>"

definition zero_death :: binder_ref_death where
  "zero_death = \<lparr>d_work_type = None, d_cookie = 0\<rparr>"

definition zero_ref :: binder_ref where
  "zero_ref = \<lparr>r_debug_id = 0, r_node = 0, r_desc = 0, r_proc = 0, r_strong = 0, r_weak = 0,
     r_death = None\<rparr>"

definition zero_buffer :: binder_buffer where
  "zero_buffer = \<lparr>b_free = False, b_transaction = None, b_target_node = None,
     b_allow_user_free = False, b_async_transaction = False, b_debug_id = 0,
     b_data = (\<lambda>_. 0), b_offsets = (\<lambda>_. 0), b_data_size = 0, b_offsets_size = 0\<rparr>"

definition zero_transaction :: binder_transaction where
  "zero_transaction = \<lparr>t_debug_id = 0, t_need_reply = False, t_from = None, t_to_proc = None,
     t_to_thread = None, t_buffer = None, t_code = 0, t_flags = 0, t_sender_euid = 0,
     t_from_parent = None, t_to_parent = None\<rparr>"

definition zero_proc :: binder_proc where
  "zero_proc = \<lparr>p_pid = 0, p_euid = 0, p_files = None, p_buffer = None, p_buffer_size = 0,
     p_vma = False, p_user_buffer_offset = 0, p_pages = {}, p_buffers = [],
     p_free_buffers = Leaf, p_allocated_buffers = [], p_bufs = (\<lambda>_. zero_buffer),
     p_free_async_space = 0, p_max_threads = 0, p_requested_threads = 0,
     p_requested_threads_started = 0, p_ready_threads = 0, p_nodes = [],
     p_refs_by_desc = [], p_refs_by_node = [], p_crashed = False\<rparr>"

text \<open>A descriptor table with no open file.\<close>

definition no_files :: files_struct where
  "no_files = \<lparr>fs_open_fds = {}, fs_fd = (\<lambda>_. None), fs_next_fd = 0, fs_rlim_cur = 1024\<rparr>"

text \<open>The static initialisers of binder.c, before any process has opened the device;
  \<open>avail\<close> is the number of kernel allocations that will succeed.\<close>

definition binder_init_state :: "nat \<Rightarrow> binder_state" where
  "binder_init_state avail =
     \<lparr>procs = (\<lambda>_. zero_proc), threads = (\<lambda>_. zero_thread), nodes = (\<lambda>_. zero_node),
      refs = (\<lambda>_. zero_ref), transactions = (\<lambda>_. zero_transaction),
      deaths = (\<lambda>_. zero_death), files = (\<lambda>_. no_files),
      queue = (\<lambda>_. []), linked = (\<lambda>_. None),
      binder_context_mgr_node = None, binder_last_id = 0, binder_dead_nodes = [],
      binder_stop_on_user_error = 0, user_errors = 0, crashed = False, wakeups = [],
      heap = {},
      kmem_next = 1, kmem_avail = avail\<rparr>"

subsection \<open>Kernel helpers\<close>

definition upd_proc :: "binder_state \<Rightarrow> nat \<Rightarrow> (binder_proc \<Rightarrow> binder_proc) \<Rightarrow> binder_state" where
  "upd_proc st p f = st\<lparr>procs := (procs st)(p := f (procs st p))\<rparr>"

definition upd_thread :: "binder_state \<Rightarrow> nat \<Rightarrow> (binder_thread \<Rightarrow> binder_thread) \<Rightarrow> binder_state" where
  "upd_thread st t f = st\<lparr>threads := (threads st)(t := f (threads st t))\<rparr>"

definition upd_node :: "binder_state \<Rightarrow> nat \<Rightarrow> (binder_node \<Rightarrow> binder_node) \<Rightarrow> binder_state" where
  "upd_node st n f = st\<lparr>nodes := (nodes st)(n := f (nodes st n))\<rparr>"

definition upd_ref :: "binder_state \<Rightarrow> nat \<Rightarrow> (binder_ref \<Rightarrow> binder_ref) \<Rightarrow> binder_state" where
  "upd_ref st r f = st\<lparr>refs := (refs st)(r := f (refs st r))\<rparr>"

definition upd_transaction ::
  "binder_state \<Rightarrow> nat \<Rightarrow> (binder_transaction \<Rightarrow> binder_transaction) \<Rightarrow> binder_state" where
  "upd_transaction st t f = st\<lparr>transactions := (transactions st)(t := f (transactions st t))\<rparr>"

definition upd_death ::
  "binder_state \<Rightarrow> nat \<Rightarrow> (binder_ref_death \<Rightarrow> binder_ref_death) \<Rightarrow> binder_state" where
  "upd_death st d f = st\<lparr>deaths := (deaths st)(d := f (deaths st d))\<rparr>"

definition upd_buffer ::
  "binder_state \<Rightarrow> buffer_ptr \<Rightarrow> (binder_buffer \<Rightarrow> binder_buffer) \<Rightarrow> binder_state" where
  "upd_buffer st bp f =
     upd_proc st (fst bp) (\<lambda>p. p\<lparr>p_bufs := (p_bufs p)(snd bp := f (p_bufs p (snd bp)))\<rparr>)"

definition buffer_at :: "binder_state \<Rightarrow> buffer_ptr \<Rightarrow> binder_buffer" where
  "buffer_at st bp = p_bufs (procs st (fst bp)) (snd bp)"

text \<open>\<^verbatim>\<open>kzalloc\<close>: \<open>None\<close> is the NULL of a failed allocation; the caller stores the
  zero-filled object at the fresh address.\<close>

definition kzalloc :: "binder_state \<Rightarrow> nat option \<times> binder_state" where
  "kzalloc st =
     (if kmem_avail st = 0 then (None, st)
      else (Some (kmem_next st),
            st\<lparr>heap := insert (kmem_next st) (heap st),
               kmem_next := Suc (kmem_next st),
               kmem_avail := kmem_avail st - 1\<rparr>))"

definition kfree :: "binder_state \<Rightarrow> nat \<Rightarrow> binder_state" where
  "kfree st a = st\<lparr>heap := heap st - {a}\<rparr>"

text \<open>The macro \<^verbatim>\<open>binder_user_error\<close>: a log line, and the stop-on-user-error latch goes
  to 2 when it is armed.\<close>

definition binder_user_error :: "binder_state \<Rightarrow> binder_state" where
  "binder_user_error st =
     st\<lparr>user_errors := Suc (user_errors st),
        binder_stop_on_user_error :=
          (if binder_stop_on_user_error st \<noteq> 0 then 2 else binder_stop_on_user_error st)\<rparr>"

definition BUG :: "binder_state \<Rightarrow> binder_state" where
  "BUG st = st\<lparr>crashed := True\<rparr>"

definition BUG_ON :: "bool \<Rightarrow> binder_state \<Rightarrow> binder_state" where
  "BUG_ON c st = (if c then BUG st else st)"

definition wake_up_interruptible :: "binder_state \<Rightarrow> wait_queue \<Rightarrow> binder_state" where
  "wake_up_interruptible st q = st\<lparr>wakeups := wakeups st @ [q]\<rparr>"

text \<open>The list primitives of \<^verbatim>\<open>linux/list.h\<close> on work items. An entry is on one list
  at most, and \<^verbatim>\<open>list_del\<close> takes it off the list it is on, whichever that is; the
  poisoning of the pointers that tells \<^verbatim>\<open>list_del\<close> from \<^verbatim>\<open>list_del_init\<close> is not
  modelled, the code never looks at an entry again after \<^verbatim>\<open>list_del\<close>.\<close>

definition list_empty :: "binder_state \<Rightarrow> list_head \<Rightarrow> bool" where
  "list_empty st L \<longleftrightarrow> queue st L = []"

definition list_add_tail :: "binder_state \<Rightarrow> binder_work \<Rightarrow> list_head \<Rightarrow> binder_state" where
  "list_add_tail st w L =
     st\<lparr>queue := (queue st)(L := queue st L @ [w]), linked := (linked st)(w := Some L)\<rparr>"

definition list_add :: "binder_state \<Rightarrow> binder_work \<Rightarrow> list_head \<Rightarrow> binder_state" where
  "list_add st w L =
     st\<lparr>queue := (queue st)(L := w # queue st L), linked := (linked st)(w := Some L)\<rparr>"

definition list_del :: "binder_state \<Rightarrow> binder_work \<Rightarrow> binder_state" where
  "list_del st w =
     st\<lparr>queue := (\<lambda>L. removeAll w (queue st L)), linked := (linked st)(w := None)\<rparr>"

definition list_del_init :: "binder_state \<Rightarrow> binder_work \<Rightarrow> binder_state" where
  "list_del_init st w = list_del st w"

definition list_move :: "binder_state \<Rightarrow> binder_work \<Rightarrow> list_head \<Rightarrow> binder_state" where
  "list_move st w L = list_add (list_del st w) w L"

definition list_move_tail :: "binder_state \<Rightarrow> binder_work \<Rightarrow> list_head \<Rightarrow> binder_state" where
  "list_move_tail st w L = list_add_tail (list_del st w) w L"

subsection \<open>Nodes and references\<close>

text \<open>\<^verbatim>\<open>rb_link_node\<close> with \<^verbatim>\<open>rb_insert_color\<close>, and \<^verbatim>\<open>rb_erase\<close>, on a tree kept as
  the list of its elements in key order.\<close>

definition rb_insert :: "('a \<Rightarrow> nat) \<Rightarrow> 'a \<Rightarrow> 'a list \<Rightarrow> 'a list" where
  "rb_insert key x xs = insort_key key x xs"

definition rb_erase :: "'a \<Rightarrow> 'a list \<Rightarrow> 'a list" where
  "rb_erase x xs = remove1 x xs"

definition binder_get_node :: "binder_state \<Rightarrow> nat \<Rightarrow> u32 \<Rightarrow> nat option" where
  "binder_get_node st proc ptr =
     find (\<lambda>n. n_ptr (nodes st n) = ptr) (p_nodes (procs st proc))"

definition binder_new_node :: "binder_state \<Rightarrow> nat \<Rightarrow> u32 \<Rightarrow> u32 \<Rightarrow> nat option \<times> binder_state" where
  "binder_new_node st proc ptr cookie =
     (if binder_get_node st proc ptr \<noteq> None then (None, st)
      else case kzalloc st of
        (None, st1) \<Rightarrow> (None, st1)
      | (Some node, st1) \<Rightarrow>
          (let st2 = st1\<lparr>binder_last_id := binder_last_id st1 + 1\<rparr>;
               st3 = st2\<lparr>nodes := (nodes st2)(node := zero_node\<lparr>n_debug_id := binder_last_id st2,
                         n_proc := Some proc, n_ptr := ptr, n_cookie := cookie\<rparr>),
                         linked := (linked st2)(W_node node := None),
                         queue := (queue st2)(Node_async_todo node := [])\<rparr>;
               st4 = upd_proc st3 proc
                       (\<lambda>p. p\<lparr>p_nodes := rb_insert (\<lambda>n. unat (n_ptr (nodes st3 n))) node (p_nodes p)\<rparr>)
           in (Some node, st4)))"

definition binder_inc_node ::
  "binder_state \<Rightarrow> nat \<Rightarrow> bool \<Rightarrow> bool \<Rightarrow> list_head option \<Rightarrow> int \<times> binder_state" where
  "binder_inc_node st node strong internal target_list =
     (if strong then
        (if internal \<and> target_list = None \<and> n_internal_strong_refs (nodes st node) = 0 \<and>
            \<not> (Some node = binder_context_mgr_node st \<and> n_has_strong_ref (nodes st node))
         then (- EINVAL, st)
         else
           (let st1 = (if internal
                       then upd_node st node (\<lambda>n. n\<lparr>n_internal_strong_refs := n_internal_strong_refs n + 1\<rparr>)
                       else upd_node st node (\<lambda>n. n\<lparr>n_local_strong_refs := n_local_strong_refs n + 1\<rparr>))
            in case target_list of
                 Some tgt \<Rightarrow>
                   if \<not> n_has_strong_ref (nodes st1 node)
                   then (0, list_add_tail (list_del_init st1 (W_node node)) (W_node node) tgt)
                   else (0, st1)
               | None \<Rightarrow> (0, st1)))
      else
        (let st1 = (if \<not> internal
                    then upd_node st node (\<lambda>n. n\<lparr>n_local_weak_refs := n_local_weak_refs n + 1\<rparr>)
                    else st)
         in if \<not> n_has_weak_ref (nodes st1 node) \<and> linked st1 (W_node node) = None then
              (case target_list of
                 None \<Rightarrow> (- EINVAL, st1)
               | Some tgt \<Rightarrow> (0, list_add_tail st1 (W_node node) tgt))
            else (0, st1)))"

definition binder_dec_node :: "binder_state \<Rightarrow> nat \<Rightarrow> bool \<Rightarrow> bool \<Rightarrow> int \<times> binder_state" where
  "binder_dec_node st node strong internal =
     (let st1 =
        (if strong then
           (if internal
            then upd_node st node (\<lambda>n. n\<lparr>n_internal_strong_refs := n_internal_strong_refs n - 1\<rparr>)
            else upd_node st node (\<lambda>n. n\<lparr>n_local_strong_refs := n_local_strong_refs n - 1\<rparr>))
         else
           (if \<not> internal
            then upd_node st node (\<lambda>n. n\<lparr>n_local_weak_refs := n_local_weak_refs n - 1\<rparr>)
            else st));
          n = nodes st1 node
      in if (if strong then n_local_strong_refs n \<noteq> 0 \<or> n_internal_strong_refs n \<noteq> 0
             else n_local_weak_refs n \<noteq> 0 \<or> n_refs n \<noteq> [])
         then (0, st1)
         else if n_proc n \<noteq> None \<and> (n_has_strong_ref n \<or> n_has_weak_ref n) then
           (if linked st1 (W_node node) = None
            then (0, wake_up_interruptible
                       (list_add_tail st1 (W_node node) (Proc_todo (the (n_proc n))))
                       (Proc_wait (the (n_proc n))))
            else (0, st1))
         else if n_refs n = [] \<and> n_local_strong_refs n = 0 \<and> n_local_weak_refs n = 0 then
           (let st2 = list_del_init st1 (W_node node);
                st3 = (case n_proc n of
                         Some p \<Rightarrow> upd_proc st2 p (\<lambda>pr. pr\<lparr>p_nodes := rb_erase node (p_nodes pr)\<rparr>)
                       | None \<Rightarrow> st2\<lparr>binder_dead_nodes := remove1 node (binder_dead_nodes st2)\<rparr>)
            in (0, kfree st3 node))
         else (0, st1))"

definition binder_get_ref :: "binder_state \<Rightarrow> nat \<Rightarrow> nat \<Rightarrow> nat option" where
  "binder_get_ref st proc desc =
     find (\<lambda>r. r_desc (refs st r) = desc) (p_refs_by_desc (procs st proc))"

text \<open>The loop of \<^verbatim>\<open>binder_get_ref_for_node\<close> that walks \<^verbatim>\<open>refs_by_desc\<close> in ascending
  order, over the descriptors met; \<^verbatim>\<open>ref->desc + 1\<close> is \<^verbatim>\<open>uint32_t\<close> arithmetic.\<close>

fun new_ref_desc :: "nat \<Rightarrow> nat list \<Rightarrow> nat" where
  "new_ref_desc d [] = d"
| "new_ref_desc d (x # xs) = (if x > d then d else new_ref_desc ((x + 1) mod 2 ^ 32) xs)"

text \<open>\<^verbatim>\<open>binder_get_ref_for_node\<close>; every caller passes a node that is not NULL.\<close>

definition binder_get_ref_for_node :: "binder_state \<Rightarrow> nat \<Rightarrow> nat \<Rightarrow> nat option \<times> binder_state" where
  "binder_get_ref_for_node st proc node =
     (case find (\<lambda>r. r_node (refs st r) = node) (p_refs_by_node (procs st proc)) of
        Some ref \<Rightarrow> (Some ref, st)
      | None \<Rightarrow>
         (case kzalloc st of
            (None, st1) \<Rightarrow> (None, st1)
          | (Some new_ref, st1) \<Rightarrow>
             (let st2 = st1\<lparr>binder_last_id := binder_last_id st1 + 1\<rparr>;
                  desc = new_ref_desc (if Some node = binder_context_mgr_node st2 then 0 else 1)
                           (map (\<lambda>r. r_desc (refs st2 r)) (p_refs_by_desc (procs st2 proc)));
                  st3 = st2\<lparr>refs := (refs st2)(new_ref := zero_ref\<lparr>r_debug_id := binder_last_id st2,
                            r_proc := proc, r_node := node, r_desc := desc\<rparr>)\<rparr>;
                  st4 = upd_proc st3 proc
                          (\<lambda>p. p\<lparr>p_refs_by_node := rb_insert (\<lambda>r. r_node (refs st3 r)) new_ref (p_refs_by_node p)\<rparr>);
                  st5 = BUG_ON (desc \<in> set (map (\<lambda>r. r_desc (refs st2 r)) (p_refs_by_desc (procs st2 proc)))) st4;
                  st6 = upd_proc st5 proc
                          (\<lambda>p. p\<lparr>p_refs_by_desc := rb_insert (\<lambda>r. r_desc (refs st3 r)) new_ref (p_refs_by_desc p)\<rparr>);
                  st7 = upd_node st6 node (\<lambda>n. n\<lparr>n_refs := new_ref # n_refs n\<rparr>)
              in (Some new_ref, st7))))"

definition binder_delete_ref :: "binder_state \<Rightarrow> nat \<Rightarrow> binder_state" where
  "binder_delete_ref st ref =
     (let r = refs st ref;
          st1 = upd_proc st (r_proc r)
                  (\<lambda>p. p\<lparr>p_refs_by_desc := rb_erase ref (p_refs_by_desc p),
                         p_refs_by_node := rb_erase ref (p_refs_by_node p)\<rparr>);
          st2 = (if r_strong r \<noteq> 0 then snd (binder_dec_node st1 (r_node r) True True) else st1);
          st3 = upd_node st2 (r_node r) (\<lambda>n. n\<lparr>n_refs := remove1 ref (n_refs n)\<rparr>);
          st4 = snd (binder_dec_node st3 (r_node r) False True);
          st5 = (case r_death r of
                   Some d \<Rightarrow> kfree (list_del st4 (W_death d)) d
                 | None \<Rightarrow> st4)
      in kfree st5 ref)"

definition binder_inc_ref ::
  "binder_state \<Rightarrow> nat \<Rightarrow> bool \<Rightarrow> list_head option \<Rightarrow> int \<times> binder_state" where
  "binder_inc_ref st ref strong target_list =
     (if strong then
        (if r_strong (refs st ref) = 0 then
           (case binder_inc_node st (r_node (refs st ref)) True True target_list of
              (ret, st1) \<Rightarrow>
                if ret \<noteq> 0 then (ret, st1)
                else (0, upd_ref st1 ref (\<lambda>r. r\<lparr>r_strong := r_strong r + 1\<rparr>)))
         else (0, upd_ref st ref (\<lambda>r. r\<lparr>r_strong := r_strong r + 1\<rparr>)))
      else
        (if r_weak (refs st ref) = 0 then
           (case binder_inc_node st (r_node (refs st ref)) False True target_list of
              (ret, st1) \<Rightarrow>
                if ret \<noteq> 0 then (ret, st1)
                else (0, upd_ref st1 ref (\<lambda>r. r\<lparr>r_weak := r_weak r + 1\<rparr>)))
         else (0, upd_ref st ref (\<lambda>r. r\<lparr>r_weak := r_weak r + 1\<rparr>))))"

definition binder_dec_ref :: "binder_state \<Rightarrow> nat \<Rightarrow> bool \<Rightarrow> int \<times> binder_state" where
  "binder_dec_ref st ref strong =
     (if strong \<and> r_strong (refs st ref) = 0 then (- EINVAL, binder_user_error st)
      else if \<not> strong \<and> r_weak (refs st ref) = 0 then (- EINVAL, binder_user_error st)
      else
        (let st1 =
           (if strong then
              (let sta = upd_ref st ref (\<lambda>r. r\<lparr>r_strong := r_strong r - 1\<rparr>)
               in if r_strong (refs sta ref) = 0
                  then snd (binder_dec_node sta (r_node (refs sta ref)) strong True)
                  else sta)
            else upd_ref st ref (\<lambda>r. r\<lparr>r_weak := r_weak r - 1\<rparr>))
         in if r_strong (refs st1 ref) = 0 \<and> r_weak (refs st1 ref) = 0
            then (0, binder_delete_ref st1 ref)
            else (0, st1)))"

subsection \<open>The buffer arena\<close>

text \<open>Sizes of the 32-bit ARM ABI. \<^verbatim>\<open>struct binder_buffer\<close> as declared in binder.c holds
  a \<^verbatim>\<open>list_head\<close> (8 bytes), an \<^verbatim>\<open>rb_node\<close> (12), the bit field \<^verbatim>\<open>free\<close> (4), two
  pointers (8), the bit fields \<^verbatim>\<open>allow_user_free\<close>, \<^verbatim>\<open>async_transaction\<close>, \<^verbatim>\<open>debug_id\<close>
  (4), the zero-length array \<^verbatim>\<open>data\<close> and then \<^verbatim>\<open>data_size\<close> and \<^verbatim>\<open>offsets_size\<close> (8):
  \<^verbatim>\<open>sizeof\<close> is 44 and \<^verbatim>\<open>data\<close> is at offset 36. The model keeps the payload and the two
  size fields apart; the proofs below use only that the offset is positive and that the
  header is small against the address space.\<close>

definition sizeof_binder_buffer :: nat where
  "sizeof_binder_buffer = 44"

definition offsetof_data :: nat where
  "offsetof_data = 36"

definition PAGE_SIZE :: nat where
  "PAGE_SIZE = 4096"


text \<open>\<^verbatim>\<open>ALIGN(x, sizeof(void *))\<close> in \<^verbatim>\<open>size_t\<close> arithmetic, \<^verbatim>\<open>PAGE_ALIGN\<close> and
  \<^verbatim>\<open>& PAGE_MASK\<close> on addresses. Addresses inside the arena are natural numbers; the arena
  lies inside the 32-bit address space, so address arithmetic does not wrap. Sizes that
  come from user space wrap modulo \<open>2 ^ 32\<close>.\<close>

definition ALIGN_ptr :: "nat \<Rightarrow> nat" where
  "ALIGN_ptr x = ((x + 3) mod 2 ^ 32) div 4 * 4"

definition PAGE_ALIGN :: "nat \<Rightarrow> nat" where
  "PAGE_ALIGN a = (a + (PAGE_SIZE - 1)) div PAGE_SIZE * PAGE_SIZE"

definition PAGE_MASK_and :: "nat \<Rightarrow> nat" where
  "PAGE_MASK_and a = a div PAGE_SIZE * PAGE_SIZE"

definition buffer_data :: "nat \<Rightarrow> nat" where
  "buffer_data buffer = buffer + offsetof_data"

definition BUG_ON_p :: "bool \<Rightarrow> binder_proc \<Rightarrow> binder_proc" where
  "BUG_ON_p c p = (if c then p\<lparr>p_crashed := True\<rparr> else p)"

text \<open>The neighbours of an entry in the address-ordered list.\<close>

definition list_next :: "nat list \<Rightarrow> nat \<Rightarrow> nat option" where
  "list_next xs b = (case dropWhile (\<lambda>x. x \<noteq> b) xs of _ # y # _ \<Rightarrow> Some y | _ \<Rightarrow> None)"

definition list_prev :: "nat list \<Rightarrow> nat \<Rightarrow> nat option" where
  "list_prev xs b = (case takeWhile (\<lambda>x. x \<noteq> b) xs of [] \<Rightarrow> None | ys \<Rightarrow> Some (last ys))"

text \<open>\<^verbatim>\<open>list_add(&new->entry, &buffer->entry)\<close>: link \<open>new\<close> right after \<open>buffer\<close>.\<close>

fun list_add_after :: "nat \<Rightarrow> nat \<Rightarrow> nat list \<Rightarrow> nat list" where
  "list_add_after new b [] = []"
| "list_add_after new b (x # xs) = (if x = b then x # new # xs else x # list_add_after new b xs)"

definition binder_buffer_size :: "binder_proc \<Rightarrow> nat \<Rightarrow> nat" where
  "binder_buffer_size proc buffer =
     (case list_next (p_buffers proc) buffer of
        None \<Rightarrow> the (p_buffer proc) + p_buffer_size proc - buffer_data buffer
      | Some nxt \<Rightarrow> nxt - buffer_data buffer)"

text \<open>The free tree is keyed by \<^verbatim>\<open>binder_buffer_size\<close>. \<^verbatim>\<open>rb_insert_color\<close> and
  \<^verbatim>\<open>rb_erase\<close> of lib/rbtree.c rebalance the tree and keep the in-order sequence of its
  nodes; the model links and unlinks without rebalancing.\<close>

fun tree_insert :: "(nat \<Rightarrow> nat) \<Rightarrow> nat \<Rightarrow> nat tree \<Rightarrow> nat tree" where
  "tree_insert sz x Leaf = Node Leaf x Leaf"
| "tree_insert sz x (Node l a r) =
     (if sz x < sz a then Node (tree_insert sz x l) a r else Node l a (tree_insert sz x r))"

fun tree_join :: "nat tree \<Rightarrow> nat tree \<Rightarrow> nat tree" where
  "tree_join Leaf r = r"
| "tree_join (Node l a m) r = Node l a (tree_join m r)"

fun tree_erase :: "nat \<Rightarrow> nat tree \<Rightarrow> nat tree" where
  "tree_erase x Leaf = Leaf"
| "tree_erase x (Node l a r) =
     (if a = x then tree_join l r else Node (tree_erase x l) a (tree_erase x r))"

definition binder_insert_free_buffer :: "binder_proc \<Rightarrow> nat \<Rightarrow> binder_proc" where
  "binder_insert_free_buffer proc new_buffer =
     (let proc1 = BUG_ON_p (\<not> b_free (p_bufs proc new_buffer)
                            \<or> (\<exists>b\<in>set_tree (p_free_buffers proc). \<not> b_free (p_bufs proc b))) proc
      in proc1\<lparr>p_free_buffers :=
           tree_insert (binder_buffer_size proc) new_buffer (p_free_buffers proc)\<rparr>)"

definition binder_insert_allocated_buffer :: "binder_proc \<Rightarrow> nat \<Rightarrow> binder_proc" where
  "binder_insert_allocated_buffer proc new_buffer =
     (let proc1 = BUG_ON_p (b_free (p_bufs proc new_buffer)
                            \<or> (\<exists>b\<in>set (p_allocated_buffers proc). b_free (p_bufs proc b))
                            \<or> new_buffer \<in> set (p_allocated_buffers proc)) proc
      in proc1\<lparr>p_allocated_buffers := rb_insert (\<lambda>b. b) new_buffer (p_allocated_buffers proc)\<rparr>)"

text \<open>\<^verbatim>\<open>binder_buffer_lookup\<close>: the user pointer is turned into the header address and
  looked up in the allocated tree (pointer arithmetic modulo \<open>2 ^ 32\<close>).\<close>

definition binder_buffer_lookup :: "binder_proc \<Rightarrow> u32 \<Rightarrow> nat option" where
  "binder_buffer_lookup proc user_ptr =
     (let kern_ptr = nat ((uint user_ptr - p_user_buffer_offset proc - int offsetof_data) mod 2 ^ 32)
      in find (\<lambda>b. b = kern_ptr) (p_allocated_buffers proc))"

text \<open>\<^verbatim>\<open>binder_update_page_range\<close>. \<open>mem_ok\<close> says whether the kernel can supply and map
  every page asked for; when it cannot, the error path releases the pages installed by the
  call, so the page set is as before. The result is the return value and the process.\<close>

definition page_indices :: "binder_proc \<Rightarrow> nat \<Rightarrow> nat \<Rightarrow> nat set" where
  "page_indices proc start endp =
     (\<lambda>k. (start + k * PAGE_SIZE - the (p_buffer proc)) div PAGE_SIZE) `
       {k. start + k * PAGE_SIZE < endp}"

definition ENOMEM :: int where "ENOMEM = 12"

definition binder_update_page_range ::
  "binder_proc \<Rightarrow> bool \<Rightarrow> nat \<Rightarrow> nat \<Rightarrow> bool \<Rightarrow> int \<times> binder_proc" where
  "binder_update_page_range proc allocate start endp mem_ok =
     (if endp \<le> start then (0, proc)
      else if allocate then
        (if mem_ok then
           (0, (BUG_ON_p (page_indices proc start endp \<inter> p_pages proc \<noteq> {}) proc)
                 \<lparr>p_pages := p_pages proc \<union> page_indices proc start endp\<rparr>)
         else (- ENOMEM, proc))
      else (- ENOMEM, proc\<lparr>p_pages := p_pages proc - page_indices proc start endp\<rparr>))"

text \<open>The best-fit descent of \<^verbatim>\<open>binder_alloc_buf\<close>: the result is \<^verbatim>\<open>best_fit\<close> and whether
  the loop left through \<^verbatim>\<open>break\<close> (\<^verbatim>\<open>n != NULL\<close>, an exact fit).\<close>

fun best_fit_search :: "(nat \<Rightarrow> nat) \<Rightarrow> nat \<Rightarrow> nat tree \<Rightarrow> nat option \<Rightarrow> nat option \<times> bool" where
  "best_fit_search sz size' Leaf best_fit = (best_fit, False)"
| "best_fit_search sz size' (Node l a r) best_fit =
     (if size' < sz a then best_fit_search sz size' l (Some a)
      else if size' > sz a then best_fit_search sz size' r best_fit
      else (Some a, True))"

datatype alloc_failure =
    No_vma
  | Invalid_size
  | No_async_space
  | No_address_space
  | No_memory

text \<open>\<^verbatim>\<open>binder_alloc_buf\<close> in three pieces: the size that the chosen block will keep
  (the \<^verbatim>\<open>if (n == NULL)\<close> block), the bookkeeping once the pages are backed (from
  \<^verbatim>\<open>rb_erase(best_fit, ...)\<close> on), and the function itself.\<close>

definition alloc_buffer_size :: "bool \<Rightarrow> nat \<Rightarrow> nat \<Rightarrow> nat" where
  "alloc_buffer_size exact size' buffer_size0 =
     (if exact then buffer_size0
      else if (size' + sizeof_binder_buffer + 4) mod 2 ^ 32 \<ge> buffer_size0 then size'
      else (size' + sizeof_binder_buffer) mod 2 ^ 32)"

definition binder_alloc_buf_commit ::
  "binder_proc \<Rightarrow> nat \<Rightarrow> nat \<Rightarrow> nat \<Rightarrow> nat \<Rightarrow> nat \<Rightarrow> bool \<Rightarrow> binder_proc" where
  "binder_alloc_buf_commit proc1 buffer size' buffer_size data_size offsets_size is_async =
     (let proc2 = proc1\<lparr>p_free_buffers := tree_erase buffer (p_free_buffers proc1)\<rparr>;
          proc3 = proc2\<lparr>p_bufs := (p_bufs proc2)
                    (buffer := (p_bufs proc2 buffer)\<lparr>b_free := False\<rparr>)\<rparr>;
          proc4 = binder_insert_allocated_buffer proc3 buffer;
          proc5 =
            (if buffer_size \<noteq> size' then
               (let new_buffer = buffer_data buffer + size';
                    proca = proc4\<lparr>p_buffers :=
                              list_add_after new_buffer buffer (p_buffers proc4)\<rparr>;
                    procb = proca\<lparr>p_bufs := (p_bufs proca)
                              (new_buffer := (p_bufs proca new_buffer)\<lparr>b_free := True\<rparr>)\<rparr>
                in binder_insert_free_buffer procb new_buffer)
             else proc4);
          proc6 = proc5\<lparr>p_bufs := (p_bufs proc5)
                    (buffer := (p_bufs proc5 buffer)
                       \<lparr>b_data_size := data_size, b_offsets_size := offsets_size,
                        b_async_transaction := is_async\<rparr>)\<rparr>
      in if is_async then
           proc6\<lparr>p_free_async_space :=
             (p_free_async_space proc6 + 2 ^ 32
                - (size' + sizeof_binder_buffer) mod 2 ^ 32) mod 2 ^ 32\<rparr>
         else proc6)"

definition binder_alloc_buf ::
  "binder_proc \<Rightarrow> nat \<Rightarrow> nat \<Rightarrow> bool \<Rightarrow> bool \<Rightarrow> (alloc_failure + nat) \<times> binder_proc" where
  "binder_alloc_buf proc data_size offsets_size is_async mem_ok =
     (if \<not> p_vma proc then (Inl No_vma, proc)
      else
       (let size' = (ALIGN_ptr data_size + ALIGN_ptr offsets_size) mod 2 ^ 32 in
        if size' < data_size \<or> size' < offsets_size then (Inl Invalid_size, proc)
        else if is_async \<and> p_free_async_space proc < (size' + sizeof_binder_buffer) mod 2 ^ 32
        then (Inl No_async_space, proc)
        else
         (case best_fit_search (binder_buffer_size proc) size' (p_free_buffers proc) None of
            (None, _) \<Rightarrow> (Inl No_address_space, proc)
          | (Some buffer, exact) \<Rightarrow>
             (let buffer_size0 = binder_buffer_size proc buffer;
                  has_page_addr = PAGE_MASK_and (buffer_data buffer + buffer_size0);
                  buffer_size = alloc_buffer_size exact size' buffer_size0;
                  end_page_addr0 = PAGE_ALIGN (buffer_data buffer + buffer_size);
                  end_page_addr = (if end_page_addr0 > has_page_addr then has_page_addr
                                   else end_page_addr0)
              in case binder_update_page_range proc True (PAGE_ALIGN (buffer_data buffer))
                        end_page_addr mem_ok of
                   (ret, proc1) \<Rightarrow>
                     if ret \<noteq> 0 then (Inl No_memory, proc1)
                     else (Inr buffer,
                           binder_alloc_buf_commit proc1 buffer size' buffer_size
                             data_size offsets_size is_async)))))"

definition buffer_start_page :: "nat \<Rightarrow> nat" where
  "buffer_start_page buffer = PAGE_MASK_and buffer"

definition buffer_end_page :: "nat \<Rightarrow> nat" where
  "buffer_end_page buffer = PAGE_MASK_and (buffer + sizeof_binder_buffer - 1)"

definition binder_delete_free_buffer :: "binder_proc \<Rightarrow> nat \<Rightarrow> binder_proc" where
  "binder_delete_free_buffer proc buffer =
     (let proc1 = BUG_ON_p (list_prev (p_buffers proc) buffer = None) proc;
          prev = the (list_prev (p_buffers proc) buffer);
          proc2 = BUG_ON_p (\<not> b_free (p_bufs proc prev)) proc1;
          share_prev = (buffer_end_page prev = buffer_start_page buffer);
          free_page_start1 = \<not> share_prev;
          free_page_end1 = \<not> (share_prev \<and> buffer_end_page prev = buffer_end_page buffer);
          nxt = list_next (p_buffers proc) buffer;
          share_next = (case nxt of None \<Rightarrow> False
                        | Some n \<Rightarrow> buffer_start_page n = buffer_end_page buffer);
          free_page_end = free_page_end1 \<and> \<not> share_next;
          free_page_start =
            free_page_start1 \<and>
            \<not> (share_next \<and> buffer_start_page (the nxt) = buffer_start_page buffer);
          proc3 = proc2\<lparr>p_buffers := remove1 buffer (p_buffers proc2)\<rparr>
      in if free_page_start \<or> free_page_end then
           snd (binder_update_page_range proc3 False
                  (if free_page_start then buffer_start_page buffer else buffer_end_page buffer)
                  ((if free_page_end then buffer_end_page buffer else buffer_start_page buffer)
                     + PAGE_SIZE) True)
         else proc3)"

text \<open>\<^verbatim>\<open>binder_free_buf\<close>, with its two coalescing steps set apart: the merge with
  the next neighbour and the merge with the previous one followed by the reinsertion into
  the free tree.\<close>

definition free_merge_next :: "binder_proc \<Rightarrow> nat \<Rightarrow> binder_proc" where
  "free_merge_next proc5 buffer =
     (case list_next (p_buffers proc5) buffer of
        None \<Rightarrow> proc5
      | Some nxt \<Rightarrow>
          if b_free (p_bufs proc5 nxt) then
            binder_delete_free_buffer
              (proc5\<lparr>p_free_buffers := tree_erase nxt (p_free_buffers proc5)\<rparr>) nxt
          else proc5)"

definition free_merge_prev :: "binder_proc \<Rightarrow> nat \<Rightarrow> binder_proc" where
  "free_merge_prev proc6 buffer =
     (case list_prev (p_buffers proc6) buffer of
        None \<Rightarrow> binder_insert_free_buffer proc6 buffer
      | Some prev \<Rightarrow>
          if b_free (p_bufs proc6 prev) then
            (let proc7 = binder_delete_free_buffer proc6 buffer;
                 proc8 = proc7\<lparr>p_free_buffers := tree_erase prev (p_free_buffers proc7)\<rparr>
             in binder_insert_free_buffer proc8 prev)
          else binder_insert_free_buffer proc6 buffer)"

definition binder_free_buf :: "binder_proc \<Rightarrow> nat \<Rightarrow> binder_proc" where
  "binder_free_buf proc buffer =
     (let buffer_size = binder_buffer_size proc buffer;
          b = p_bufs proc buffer;
          size' = (ALIGN_ptr (b_data_size b) + ALIGN_ptr (b_offsets_size b)) mod 2 ^ 32;
          proc1 = BUG_ON_p (b_free b \<or> size' > buffer_size \<or> b_transaction b \<noteq> None
                            \<or> buffer < the (p_buffer proc)
                            \<or> buffer > the (p_buffer proc) + p_buffer_size proc) proc;
          proc2 = (if b_async_transaction b then
                     proc1\<lparr>p_free_async_space :=
                       (p_free_async_space proc1 + (size' + sizeof_binder_buffer) mod 2 ^ 32) mod 2 ^ 32\<rparr>
                   else proc1);
          proc3 = snd (binder_update_page_range proc2 False (PAGE_ALIGN (buffer_data buffer))
                         (PAGE_MASK_and (buffer_data buffer + buffer_size)) True);
          proc4 = proc3\<lparr>p_allocated_buffers := rb_erase buffer (p_allocated_buffers proc3)\<rparr>;
          proc5 = proc4\<lparr>p_bufs := (p_bufs proc4)(buffer := (p_bufs proc4 buffer)\<lparr>b_free := True\<rparr>)\<rparr>
      in free_merge_prev (free_merge_next proc5 buffer) buffer)"



subsection \<open>Reference count commands of \<^verbatim>\<open>binder_thread_write\<close>\<close>

datatype refs_command = BC_INCREFS | BC_ACQUIRE | BC_RELEASE | BC_DECREFS

text \<open>\<^verbatim>\<open>case BC_INCREFS: case BC_ACQUIRE: case BC_RELEASE: case BC_DECREFS:\<close> with the
  \<^verbatim>\<open>target\<close> read from the command stream. When \<^verbatim>\<open>binder_get_ref_for_node\<close> returns NULL
  for target 0, the C code reads \<^verbatim>\<open>ref->desc\<close> through the NULL pointer.\<close>

definition bc_refs :: "binder_state \<Rightarrow> nat \<Rightarrow> nat \<Rightarrow> refs_command \<Rightarrow> nat \<Rightarrow> binder_state" where
  "bc_refs st proc thread cmd target =
     (let (ref, st1) =
        (if target = 0 \<and> binder_context_mgr_node st \<noteq> None \<and> (cmd = BC_INCREFS \<or> cmd = BC_ACQUIRE)
         then
           (case binder_get_ref_for_node st proc (the (binder_context_mgr_node st)) of
              (None, sta) \<Rightarrow> (None, BUG sta)
            | (Some r, sta) \<Rightarrow>
                (Some r, if r_desc (refs sta r) \<noteq> target then binder_user_error sta else sta))
         else (binder_get_ref st proc target, st))
      in case ref of
           None \<Rightarrow> if crashed st1 then st1 else binder_user_error st1
         | Some r \<Rightarrow>
            (case cmd of
               BC_INCREFS \<Rightarrow> snd (binder_inc_ref st1 r False None)
             | BC_ACQUIRE \<Rightarrow> snd (binder_inc_ref st1 r True None)
             | BC_RELEASE \<Rightarrow> snd (binder_dec_ref st1 r True)
             | BC_DECREFS \<Rightarrow> snd (binder_dec_ref st1 r False)))"

subsection \<open>Thread pool commands of \<^verbatim>\<open>binder_thread_write\<close>\<close>

definition looper_set :: "binder_state \<Rightarrow> nat \<Rightarrow> looper_state \<Rightarrow> binder_state" where
  "looper_set st thread f = upd_thread st thread (\<lambda>th. th\<lparr>th_looper := insert f (th_looper th)\<rparr>)"

definition looper_test :: "binder_state \<Rightarrow> nat \<Rightarrow> looper_state set \<Rightarrow> bool" where
  "looper_test st thread fs \<longleftrightarrow> th_looper (threads st thread) \<inter> fs \<noteq> {}"



text \<open>\<^verbatim>\<open>case BC_EXIT_LOOPER\<close>.\<close>

definition bc_exit_looper :: "binder_state \<Rightarrow> nat \<Rightarrow> nat \<Rightarrow> binder_state" where
  "bc_exit_looper st proc thread = looper_set st thread BINDER_LOOPER_STATE_EXITED"

subsection \<open>The exit of \<^verbatim>\<open>binder_thread_read\<close>\<close>

text \<open>The code behind the label \<^verbatim>\<open>done\<close>. The user's read buffer is seen through the
  stores made into it: a store is a pair of the byte offset from \<^verbatim>\<open>buffer\<close> and the
  32-bit word written. \<open>ubuf_ok\<close> tells whether the buffer is writable user memory; a
  failed \<^verbatim>\<open>put_user\<close> returns \<^verbatim>\<open>-EFAULT\<close>. The result is the return value, the new
  state and the stores made.\<close>

type_synonym user_store = "int \<times> u32"

definition spawn_looper_wanted :: "binder_state \<Rightarrow> nat \<Rightarrow> nat \<Rightarrow> bool" where
  "spawn_looper_wanted st proc thread \<longleftrightarrow>
     p_requested_threads (procs st proc) + p_ready_threads (procs st proc) = 0 \<and>
     p_requested_threads_started (procs st proc) < p_max_threads (procs st proc) \<and>
     looper_test st thread {BINDER_LOOPER_STATE_REGISTERED, BINDER_LOOPER_STATE_ENTERED}"

definition binder_thread_read_done ::
  "binder_state \<Rightarrow> nat \<Rightarrow> nat \<Rightarrow> bool \<Rightarrow> int \<times> binder_state \<times> user_store list" where
  "binder_thread_read_done st proc thread ubuf_ok =
     (if spawn_looper_wanted st proc thread then
        (let st1 = upd_proc st proc (\<lambda>p. p\<lparr>p_requested_threads := p_requested_threads p + 1\<rparr>)
         in if ubuf_ok then (0, st1, [(0, BR_SPAWN_LOOPER)]) else (- EFAULT, st1, []))
      else (0, st, []))"


subsection \<open>Reachable arenas and the asynchronous quota\<close>





subsection \<open>A small arena\<close>



subsection \<open>Flat objects and user memory\<close>

text \<open>\<^verbatim>\<open>B_PACK_CHARS\<close> and the object types of binder.h; the characters are given by their
  codes (\<open>'s' = 115\<close>, \<open>'w' = 119\<close>, \<open>'b' = 98\<close>, \<open>'h' = 104\<close>, \<open>'f' = 102\<close>, \<open>'d' = 100\<close>,
  \<open>'*' = 42\<close>) and \<^verbatim>\<open>B_TYPE_LARGE\<close> is \<open>0x85\<close>.\<close>

definition B_PACK_CHARS :: "nat \<Rightarrow> nat \<Rightarrow> nat \<Rightarrow> nat \<Rightarrow> u32" where
  "B_PACK_CHARS c1 c2 c3 c4 =
     push_bit 24 (of_nat c1) OR push_bit 16 (of_nat c2) OR push_bit 8 (of_nat c3) OR of_nat c4"

definition BINDER_TYPE_BINDER :: u32 where "BINDER_TYPE_BINDER = B_PACK_CHARS 115 98 42 133"
definition BINDER_TYPE_WEAK_BINDER :: u32 where "BINDER_TYPE_WEAK_BINDER = B_PACK_CHARS 119 98 42 133"
definition BINDER_TYPE_HANDLE :: u32 where "BINDER_TYPE_HANDLE = B_PACK_CHARS 115 104 42 133"
definition BINDER_TYPE_WEAK_HANDLE :: u32 where "BINDER_TYPE_WEAK_HANDLE = B_PACK_CHARS 119 104 42 133"
definition BINDER_TYPE_FD :: u32 where "BINDER_TYPE_FD = B_PACK_CHARS 102 100 42 133"

definition FLAT_BINDER_FLAG_PRIORITY_MASK :: u32 where "FLAT_BINDER_FLAG_PRIORITY_MASK = 255"
definition FLAT_BINDER_FLAG_ACCEPTS_FDS :: u32 where "FLAT_BINDER_FLAG_ACCEPTS_FDS = 256"

text \<open>\<^verbatim>\<open>struct flat_binder_object\<close> is four 32-bit words: \<^verbatim>\<open>type\<close>, \<^verbatim>\<open>flags\<close>, the union
  of \<^verbatim>\<open>binder\<close> and \<^verbatim>\<open>handle\<close>, and \<^verbatim>\<open>cookie\<close>. The accessors read the object at byte
  offset \<open>off\<close> of the payload, which the callers have checked to be a multiple of 4.\<close>

definition sizeof_flat_binder_object :: nat where
  "sizeof_flat_binder_object = 16"

definition fp_type :: "binder_buffer \<Rightarrow> nat \<Rightarrow> u32" where
  "fp_type b off = b_data b (off div 4)"

definition fp_flags :: "binder_buffer \<Rightarrow> nat \<Rightarrow> u32" where
  "fp_flags b off = b_data b (off div 4 + 1)"

definition fp_binder :: "binder_buffer \<Rightarrow> nat \<Rightarrow> u32" where
  "fp_binder b off = b_data b (off div 4 + 2)"

definition fp_handle :: "binder_buffer \<Rightarrow> nat \<Rightarrow> u32" where
  "fp_handle b off = b_data b (off div 4 + 2)"

definition fp_cookie :: "binder_buffer \<Rightarrow> nat \<Rightarrow> u32" where
  "fp_cookie b off = b_data b (off div 4 + 3)"

definition set_fp_type :: "binder_state \<Rightarrow> buffer_ptr \<Rightarrow> nat \<Rightarrow> u32 \<Rightarrow> binder_state" where
  "set_fp_type st buf off v = upd_buffer st buf (\<lambda>b. b\<lparr>b_data := (b_data b)(off div 4 := v)\<rparr>)"

definition set_fp_binder :: "binder_state \<Rightarrow> buffer_ptr \<Rightarrow> nat \<Rightarrow> u32 \<Rightarrow> binder_state" where
  "set_fp_binder st buf off v =
     upd_buffer st buf (\<lambda>b. b\<lparr>b_data := (b_data b)(off div 4 + 2 := v)\<rparr>)"

definition set_fp_handle :: "binder_state \<Rightarrow> buffer_ptr \<Rightarrow> nat \<Rightarrow> u32 \<Rightarrow> binder_state" where
  "set_fp_handle st buf off v =
     upd_buffer st buf (\<lambda>b. b\<lparr>b_data := (b_data b)(off div 4 + 2 := v)\<rparr>)"

definition set_fp_cookie :: "binder_state \<Rightarrow> buffer_ptr \<Rightarrow> nat \<Rightarrow> u32 \<Rightarrow> binder_state" where
  "set_fp_cookie st buf off v =
     upd_buffer st buf (\<lambda>b. b\<lparr>b_data := (b_data b)(off div 4 + 3 := v)\<rparr>)"

text \<open>The test on an offset that \<^verbatim>\<open>binder_transaction\<close> and
  \<^verbatim>\<open>binder_transaction_buffer_release\<close> share; \<^verbatim>\<open>data_size - sizeof(*fp)\<close> is
  \<^verbatim>\<open>size_t\<close> arithmetic.\<close>

definition bad_offset :: "binder_buffer \<Rightarrow> nat \<Rightarrow> bool" where
  "bad_offset b off \<longleftrightarrow>
     off > (b_data_size b + 2 ^ 32 - sizeof_flat_binder_object) mod 2 ^ 32 \<or>
     b_data_size b < sizeof_flat_binder_object \<or>
     off mod 4 \<noteq> 0"

text \<open>\<^verbatim>\<open>copy_from_user\<close> of \<open>n\<close> bytes into an array of 32-bit words (little endian). The
  user memory behind the source pointer is \<open>None\<close> when the pointer faults; the bytes that a
  faulting copy stored before the fault are not modelled, no code reads them. A last word
  that is copied in part keeps its upper bytes.\<close>

definition copy_words :: "nat \<Rightarrow> (nat \<Rightarrow> u32) \<Rightarrow> (nat \<Rightarrow> u32) \<Rightarrow> nat \<Rightarrow> u32" where
  "copy_words n src dst =
     (\<lambda>i. if 4 * i + 4 \<le> n then src i
          else if 4 * i < n
          then (src i AND mask (8 * (n - 4 * i))) OR (dst i AND NOT (mask (8 * (n - 4 * i))))
          else dst i)"

definition copy_from_user :: "nat \<Rightarrow> (nat \<Rightarrow> u32) option \<Rightarrow> (nat \<Rightarrow> u32) \<Rightarrow> (nat \<Rightarrow> u32) option" where
  "copy_from_user n src dst =
     (if n = 0 then Some dst
      else case src of None \<Rightarrow> None | Some s \<Rightarrow> Some (copy_words n s dst))"

text \<open>The fields of \<^verbatim>\<open>struct binder_transaction_data\<close> that \<^verbatim>\<open>binder_transaction\<close> reads,
  with the user memory behind \<^verbatim>\<open>data.ptr.buffer\<close> and \<^verbatim>\<open>data.ptr.offsets\<close>.\<close>

record binder_transaction_data =
  tr_target_handle :: nat
  tr_code :: u32
  tr_flags :: u32
  tr_data_size :: nat
  tr_offsets_size :: nat
  tr_data :: "(nat \<Rightarrow> u32) option"
  tr_offsets :: "(nat \<Rightarrow> u32) option"

subsection \<open>File descriptors of the target\<close>

definition ESRCH :: int where "ESRCH = 3"
definition EMFILE :: int where "EMFILE = 24"
definition EBADF :: int where "EBADF = 9"

text \<open>\<^verbatim>\<open>find_next_zero_bit\<close> on the open-descriptor bitmap.\<close>

function find_next_zero_bit :: "nat set \<Rightarrow> nat \<Rightarrow> nat \<Rightarrow> nat" where
  "find_next_zero_bit bits size' offset =
     (if offset \<ge> size' then size'
      else if offset \<notin> bits then offset
      else find_next_zero_bit bits size' (Suc offset))"
  by pat_completeness auto
termination by (relation "measure (\<lambda>(bits, size', offset). size' - offset)") auto

text \<open>\<^verbatim>\<open>fget\<close> in the descriptor table of the calling task.\<close>

definition fget :: "binder_state \<Rightarrow> nat \<Rightarrow> nat \<Rightarrow> nat option" where
  "fget st current_files fd = fs_fd (files st current_files) fd"

definition task_get_unused_fd_flags :: "binder_state \<Rightarrow> nat \<Rightarrow> int \<times> binder_state" where
  "task_get_unused_fd_flags st proc =
     (case p_files (procs st proc) of
        None \<Rightarrow> (- ESRCH, st)
      | Some f \<Rightarrow>
         (let fs = files st f;
              fd = find_next_zero_bit (fs_open_fds fs) (fs_rlim_cur fs) (fs_next_fd fs)
          in if fd \<ge> fs_rlim_cur fs then (- EMFILE, st)
             else (int fd,
                   st\<lparr>files := (files st)
                        (f := fs\<lparr>fs_open_fds := insert fd (fs_open_fds fs),
                                 fs_next_fd := fd + 1,
                                 fs_fd := (fs_fd fs)(fd := None)\<rparr>)\<rparr>)))"

definition task_fd_install :: "binder_state \<Rightarrow> nat \<Rightarrow> nat \<Rightarrow> nat \<Rightarrow> binder_state" where
  "task_fd_install st proc fd file =
     (case p_files (procs st proc) of
        None \<Rightarrow> st
      | Some f \<Rightarrow>
         (let st1 = BUG_ON (fs_fd (files st f) fd \<noteq> None) st
          in st1\<lparr>files := (files st1)(f := (files st1 f)\<lparr>fs_fd := (fs_fd (files st1 f))(fd := Some file)\<rparr>)\<rparr>))"

definition task_close_fd :: "binder_state \<Rightarrow> nat \<Rightarrow> nat \<Rightarrow> int \<times> binder_state" where
  "task_close_fd st proc fd =
     (case p_files (procs st proc) of
        None \<Rightarrow> (- ESRCH, st)
      | Some f \<Rightarrow>
         (let fs = files st f
          in case fs_fd fs fd of
               None \<Rightarrow> (- EBADF, st)
             | Some filp \<Rightarrow>
                (0, st\<lparr>files := (files st)
                        (f := fs\<lparr>fs_fd := (fs_fd fs)(fd := None),
                                 fs_open_fds := fs_open_fds fs - {fd},
                                 fs_next_fd := (if fd < fs_next_fd fs then fd else fs_next_fd fs)\<rparr>)\<rparr>)))"

subsection \<open>\<^verbatim>\<open>binder_pop_transaction\<close> and \<^verbatim>\<open>binder_send_failed_reply\<close>\<close>

definition binder_pop_transaction :: "binder_state \<Rightarrow> nat option \<Rightarrow> nat \<Rightarrow> binder_state" where
  "binder_pop_transaction st target_thread t =
     (let st1 =
        (case target_thread of
           None \<Rightarrow> st
         | Some tt \<Rightarrow>
            (let sta = BUG_ON (th_transaction_stack (threads st tt) \<noteq> Some t) st;
                 stb = BUG_ON (case th_transaction_stack (threads sta tt) of
                                 None \<Rightarrow> True
                               | Some s \<Rightarrow> t_from (transactions sta s) \<noteq> Some tt) sta;
                 stc = upd_thread stb tt
                         (\<lambda>th. th\<lparr>th_transaction_stack :=
                            (case th_transaction_stack th of
                               None \<Rightarrow> None
                             | Some s \<Rightarrow> t_from_parent (transactions stb s))\<rparr>)
             in upd_transaction stc t (\<lambda>tn. tn\<lparr>t_from := None\<rparr>)));
          st2 = upd_transaction st1 t (\<lambda>tn. tn\<lparr>t_need_reply := False\<rparr>);
          st3 = (case t_buffer (transactions st2 t) of
                   None \<Rightarrow> st2
                 | Some buf \<Rightarrow> upd_buffer st2 buf (\<lambda>b. b\<lparr>b_transaction := None\<rparr>))
      in kfree st3 t)"

text \<open>The \<^verbatim>\<open>while (1)\<close> loop of \<^verbatim>\<open>binder_send_failed_reply\<close> climbs the \<^verbatim>\<open>from_parent\<close>
  chain; on a chain that does not end it does not return, which is the value \<open>None\<close>.\<close>

partial_function (option) binder_send_failed_reply_loop ::
  "binder_state \<Rightarrow> nat \<Rightarrow> u32 \<Rightarrow> binder_state option" where
  "binder_send_failed_reply_loop st t error_code =
     (case t_from (transactions st t) of
        Some target_thread \<Rightarrow>
          (let st1 =
             (if th_return_error (threads st target_thread) \<noteq> BR_OK \<and>
                 th_return_error2 (threads st target_thread) = BR_OK
              then upd_thread st target_thread
                     (\<lambda>th. th\<lparr>th_return_error2 := th_return_error th, th_return_error := BR_OK\<rparr>)
              else st)
           in if th_return_error (threads st1 target_thread) = BR_OK then
                Some (wake_up_interruptible
                        (upd_thread (binder_pop_transaction st1 (Some target_thread) t) target_thread
                           (\<lambda>th. th\<lparr>th_return_error := error_code\<rparr>))
                        (Thread_wait target_thread))
              else Some st1)
      | None \<Rightarrow>
          (let next = t_from_parent (transactions st t);
               st1 = binder_pop_transaction st None t
           in case next of
                None \<Rightarrow> Some st1
              | Some n \<Rightarrow> binder_send_failed_reply_loop st1 n error_code))"

definition binder_send_failed_reply :: "binder_state \<Rightarrow> nat \<Rightarrow> u32 \<Rightarrow> binder_state option" where
  "binder_send_failed_reply st t error_code =
     binder_send_failed_reply_loop
       (BUG_ON (t_flags (transactions st t) AND TF_ONE_WAY \<noteq> 0) st) t error_code"

subsection \<open>\<^verbatim>\<open>binder_transaction_buffer_release\<close>\<close>

text \<open>The body of the loop over the offsets, for the entry with index \<open>i\<close>; \<open>failed\<close> tells
  whether \<^verbatim>\<open>failed_at\<close> is not NULL.\<close>

definition binder_release_object ::
  "binder_state \<Rightarrow> nat \<Rightarrow> buffer_ptr \<Rightarrow> bool \<Rightarrow> nat \<Rightarrow> binder_state" where
  "binder_release_object st proc buf failed i =
     (let b = buffer_at st buf; off = unat (b_offsets b i) in
      if bad_offset b off then st
      else if fp_type b off = BINDER_TYPE_BINDER \<or> fp_type b off = BINDER_TYPE_WEAK_BINDER then
        (case binder_get_node st proc (fp_binder b off) of
           None \<Rightarrow> st
         | Some node \<Rightarrow>
             snd (binder_dec_node st node (fp_type b off = BINDER_TYPE_BINDER) False))
      else if fp_type b off = BINDER_TYPE_HANDLE \<or> fp_type b off = BINDER_TYPE_WEAK_HANDLE then
        (case binder_get_ref st proc (unat (fp_handle b off)) of
           None \<Rightarrow> st
         | Some ref \<Rightarrow> snd (binder_dec_ref st ref (fp_type b off = BINDER_TYPE_HANDLE)))
      else if fp_type b off = BINDER_TYPE_FD then
        (if failed then snd (task_close_fd st proc (unat (fp_handle b off))) else st)
      else st)"

text \<open>The loop, from the entry with index \<open>i\<close> over \<open>k\<close> entries.\<close>

fun binder_release_objects ::
  "nat \<Rightarrow> buffer_ptr \<Rightarrow> bool \<Rightarrow> nat \<Rightarrow> nat \<Rightarrow> binder_state \<Rightarrow> binder_state" where
  "binder_release_objects proc buf failed i 0 st = st"
| "binder_release_objects proc buf failed i (Suc k) st =
     binder_release_objects proc buf failed (Suc i) k (binder_release_object st proc buf failed i)"

text \<open>\<^verbatim>\<open>failed_at\<close> is the index of the entry that \<^verbatim>\<open>offp\<close> pointed at, \<open>None\<close> for NULL.
  Without it the loop runs while \<^verbatim>\<open>offp < off_end\<close>, over every entry that begins inside
  \<^verbatim>\<open>offsets_size\<close>.\<close>

definition binder_transaction_buffer_release ::
  "binder_state \<Rightarrow> nat \<Rightarrow> buffer_ptr \<Rightarrow> nat option \<Rightarrow> binder_state" where
  "binder_transaction_buffer_release st proc buf failed_at =
     (let st1 = (case b_target_node (buffer_at st buf) of
                   None \<Rightarrow> st
                 | Some n \<Rightarrow> snd (binder_dec_node st n True False));
          count = (case failed_at of
                     Some k \<Rightarrow> k
                   | None \<Rightarrow> (b_offsets_size (buffer_at st1 buf) + 3) div 4)
      in binder_release_objects proc buf (failed_at \<noteq> None) 0 count st1)"

subsection \<open>\<^verbatim>\<open>binder_transaction\<close>\<close>

text \<open>The translation of one object is \<open>Translated\<close> or leaves the loop through a
  \<^verbatim>\<open>goto\<close>: \<open>Failed (Some e)\<close> when the statement \<^verbatim>\<open>return_error = e\<close> precedes the
  \<^verbatim>\<open>goto\<close>, \<open>Failed None\<close> when the \<^verbatim>\<open>goto\<close> stands alone and \<^verbatim>\<open>return_error\<close> keeps the
  value it had.\<close>

datatype translate_result = Translated | Failed "u32 option"

text \<open>\<^verbatim>\<open>case BINDER_TYPE_BINDER: case BINDER_TYPE_WEAK_BINDER:\<close> for the object at byte
  offset \<open>off\<close> of the buffer.\<close>

definition translate_binder ::
  "binder_state \<Rightarrow> nat \<Rightarrow> nat \<Rightarrow> nat \<Rightarrow> buffer_ptr \<Rightarrow> nat \<Rightarrow> translate_result \<times> binder_state" where
  "translate_binder st proc thread target_proc buf off =
     (let b = buffer_at st buf in
      case (case binder_get_node st proc (fp_binder b off) of
              Some n \<Rightarrow> (Some n, st)
            | None \<Rightarrow>
               (case binder_new_node st proc (fp_binder b off) (fp_cookie b off) of
                  (None, sta) \<Rightarrow> (None, sta)
                | (Some n, sta) \<Rightarrow>
                    (Some n, upd_node sta n
                       (\<lambda>nd. nd\<lparr>n_min_priority := uint (fp_flags b off AND FLAT_BINDER_FLAG_PRIORITY_MASK),
                                 n_accept_fds := (fp_flags b off AND FLAT_BINDER_FLAG_ACCEPTS_FDS \<noteq> 0)\<rparr>)))) of
        (None, st1) \<Rightarrow> (Failed (Some BR_FAILED_REPLY), st1)
      | (Some node, st1) \<Rightarrow>
          if fp_cookie b off \<noteq> n_cookie (nodes st1 node)
          then (Failed None, binder_user_error st1)
          else
           (case binder_get_ref_for_node st1 target_proc node of
              (None, st2) \<Rightarrow> (Failed (Some BR_FAILED_REPLY), st2)
            | (Some ref, st2) \<Rightarrow>
               (let strong = (fp_type b off = BINDER_TYPE_BINDER);
                    st3 = set_fp_type st2 buf off
                            (if strong then BINDER_TYPE_HANDLE else BINDER_TYPE_WEAK_HANDLE);
                    st4 = set_fp_handle st3 buf off (of_nat (r_desc (refs st3 ref)));
                    st5 = snd (binder_inc_ref st4 ref strong (Some (Thread_todo thread)))
                in (Translated, st5))))"

text \<open>\<^verbatim>\<open>case BINDER_TYPE_HANDLE: case BINDER_TYPE_WEAK_HANDLE:\<close>.\<close>

definition translate_handle ::
  "binder_state \<Rightarrow> nat \<Rightarrow> nat \<Rightarrow> nat \<Rightarrow> buffer_ptr \<Rightarrow> nat \<Rightarrow> translate_result \<times> binder_state" where
  "translate_handle st proc thread target_proc buf off =
     (let b = buffer_at st buf in
      case binder_get_ref st proc (unat (fp_handle b off)) of
        None \<Rightarrow> (Failed (Some BR_FAILED_REPLY), binder_user_error st)
      | Some ref \<Rightarrow>
         (let node = r_node (refs st ref); strong = (fp_type b off = BINDER_TYPE_HANDLE) in
          if n_proc (nodes st node) = Some target_proc then
            (let st1 = set_fp_type st buf off
                         (if strong then BINDER_TYPE_BINDER else BINDER_TYPE_WEAK_BINDER);
                 st2 = set_fp_binder st1 buf off (n_ptr (nodes st1 node));
                 st3 = set_fp_cookie st2 buf off (n_cookie (nodes st2 node))
             in (Translated, snd (binder_inc_node st3 node strong False None)))
          else
            (case binder_get_ref_for_node st target_proc node of
               (None, st1) \<Rightarrow> (Failed (Some BR_FAILED_REPLY), st1)
             | (Some new_ref, st1) \<Rightarrow>
                (let st2 = set_fp_handle st1 buf off (of_nat (r_desc (refs st1 new_ref)))
                 in (Translated, snd (binder_inc_ref st2 new_ref strong None))))))"

text \<open>\<^verbatim>\<open>case BINDER_TYPE_FD:\<close>. \<^verbatim>\<open>in_reply_to\<close> is not NULL in a reply and \<^verbatim>\<open>target_node\<close>
  is not NULL in a call; the reference counts of \<^verbatim>\<open>struct file\<close> are not modelled, so
  \<^verbatim>\<open>fput\<close> does nothing.\<close>

definition translate_fd ::
  "binder_state \<Rightarrow> nat \<Rightarrow> nat option \<Rightarrow> nat option \<Rightarrow> bool \<Rightarrow> buffer_ptr \<Rightarrow> nat \<Rightarrow> nat
     \<Rightarrow> translate_result \<times> binder_state" where
  "translate_fd st target_proc target_node in_reply_to reply buf current_files off =
     (let b = buffer_at st buf;
          allowed =
            (if reply
             then (case in_reply_to of
                     None \<Rightarrow> False
                   | Some irt \<Rightarrow> t_flags (transactions st irt) AND TF_ACCEPT_FDS \<noteq> 0)
             else (case target_node of
                     None \<Rightarrow> False
                   | Some n \<Rightarrow> n_accept_fds (nodes st n)))
      in if \<not> allowed then (Failed (Some BR_FAILED_REPLY), binder_user_error st)
         else
          (case fget st current_files (unat (fp_handle b off)) of
             None \<Rightarrow> (Failed (Some BR_FAILED_REPLY), binder_user_error st)
           | Some file \<Rightarrow>
              (case task_get_unused_fd_flags st target_proc of
                 (target_fd, st1) \<Rightarrow>
                   if target_fd < 0 then (Failed (Some BR_FAILED_REPLY), st1)
                   else
                    (let st2 = task_fd_install st1 target_proc (nat target_fd) file
                     in (Translated, set_fp_handle st2 buf off (of_int target_fd))))))"

text \<open>The body of the \<^verbatim>\<open>for\<close> loop over the offsets, for the entry with index \<open>i\<close>.\<close>

definition binder_transaction_object ::
  "binder_state \<Rightarrow> nat \<Rightarrow> nat \<Rightarrow> nat \<Rightarrow> nat option \<Rightarrow> nat option \<Rightarrow> bool \<Rightarrow> buffer_ptr \<Rightarrow> nat
     \<Rightarrow> nat \<Rightarrow> translate_result \<times> binder_state" where
  "binder_transaction_object st proc thread target_proc target_node in_reply_to reply buf
       current_files i =
     (let b = buffer_at st buf; off = unat (b_offsets b i) in
      if bad_offset b off then (Failed (Some BR_FAILED_REPLY), binder_user_error st)
      else if fp_type b off = BINDER_TYPE_BINDER \<or> fp_type b off = BINDER_TYPE_WEAK_BINDER then
        translate_binder st proc thread target_proc buf off
      else if fp_type b off = BINDER_TYPE_HANDLE \<or> fp_type b off = BINDER_TYPE_WEAK_HANDLE then
        translate_handle st proc thread target_proc buf off
      else if fp_type b off = BINDER_TYPE_FD then
        translate_fd st target_proc target_node in_reply_to reply buf current_files off
      else (Failed (Some BR_FAILED_REPLY), binder_user_error st))"

text \<open>The loop, from the entry with index \<open>i\<close> over \<open>k\<close> entries. A failure comes with the
  index of the entry that \<^verbatim>\<open>offp\<close> points at when the loop is left.\<close>

fun binder_transaction_objects ::
  "nat \<Rightarrow> nat \<Rightarrow> nat \<Rightarrow> nat option \<Rightarrow> nat option \<Rightarrow> bool \<Rightarrow> buffer_ptr \<Rightarrow> nat
     \<Rightarrow> nat \<Rightarrow> nat \<Rightarrow> binder_state \<Rightarrow> (u32 option \<times> nat) option \<times> binder_state" where
  "binder_transaction_objects proc thread target_proc target_node in_reply_to reply buf
       current_files i 0 st = (None, st)"
| "binder_transaction_objects proc thread target_proc target_node in_reply_to reply buf
       current_files i (Suc k) st =
     (case binder_transaction_object st proc thread target_proc target_node in_reply_to reply buf
             current_files i of
        (Failed e, st1) \<Rightarrow> (Some (e, i), st1)
      | (Translated, st1) \<Rightarrow>
          binder_transaction_objects proc thread target_proc target_node in_reply_to reply buf
            current_files (Suc i) k st1)"

text \<open>From the two \<^verbatim>\<open>copy_from_user\<close> calls to the end of the loop.\<close>

definition binder_transaction_fill ::
  "binder_state \<Rightarrow> nat \<Rightarrow> nat \<Rightarrow> binder_transaction_data \<Rightarrow> nat \<Rightarrow> nat option \<Rightarrow> nat option
     \<Rightarrow> bool \<Rightarrow> buffer_ptr \<Rightarrow> nat \<Rightarrow> (u32 option \<times> nat) option \<times> binder_state" where
  "binder_transaction_fill st proc thread tr target_proc target_node in_reply_to reply buf
       current_files =
     (case copy_from_user (tr_data_size tr) (tr_data tr) (b_data (buffer_at st buf)) of
        None \<Rightarrow> (Some (Some BR_FAILED_REPLY, 0), binder_user_error st)
      | Some d \<Rightarrow>
         (let st1 = upd_buffer st buf (\<lambda>b. b\<lparr>b_data := d\<rparr>) in
          case copy_from_user (tr_offsets_size tr) (tr_offsets tr) (b_offsets (buffer_at st1 buf)) of
            None \<Rightarrow> (Some (Some BR_FAILED_REPLY, 0), binder_user_error st1)
          | Some os \<Rightarrow>
             (let st2 = upd_buffer st1 buf (\<lambda>b. b\<lparr>b_offsets := os\<rparr>) in
              if tr_offsets_size tr mod 4 \<noteq> 0
              then (Some (Some BR_FAILED_REPLY, 0), binder_user_error st2)
              else binder_transaction_objects proc thread target_proc target_node in_reply_to
                     reply buf current_files 0 (tr_offsets_size tr div 4) st2)))"

text \<open>The loop that looks for a thread of the target process among the callers of the
  transactions on the sender's stack. On a chain that does not end it does not return.\<close>

partial_function (option) binder_transaction_stack_walk ::
  "binder_state \<Rightarrow> nat option \<Rightarrow> nat \<Rightarrow> nat option \<Rightarrow> nat option option" where
  "binder_transaction_stack_walk st tmp target_proc target_thread =
     (case tmp of
        None \<Rightarrow> Some target_thread
      | Some t \<Rightarrow>
          binder_transaction_stack_walk st (t_from_parent (transactions st t)) target_proc
            (case t_from (transactions st t) of
               None \<Rightarrow> target_thread
             | Some f \<Rightarrow> if th_proc (threads st f) = target_proc then Some f else target_thread))"

text \<open>The first part of \<^verbatim>\<open>binder_transaction\<close>, up to the choice of \<^verbatim>\<open>target_list\<close>. It
  ends at one of the error labels with \<^verbatim>\<open>return_error\<close> and \<^verbatim>\<open>in_reply_to\<close> (\<open>Inl\<close>) or
  goes on with \<^verbatim>\<open>target_proc\<close>, \<^verbatim>\<open>target_thread\<close>, \<^verbatim>\<open>target_node\<close> and \<^verbatim>\<open>in_reply_to\<close>
  (\<open>Inr\<close>). The priority fields and \<^verbatim>\<open>binder_set_nice\<close> are left out, and so are the
  transaction log and the statistics.\<close>

type_synonym target_result =
  "(u32 \<times> nat option) + (nat \<times> nat option \<times> nat option \<times> nat option)"

definition binder_transaction_reply_target ::
  "binder_state \<Rightarrow> nat \<Rightarrow> nat \<Rightarrow> target_result \<times> binder_state" where
  "binder_transaction_reply_target st proc thread =
     (case th_transaction_stack (threads st thread) of
        None \<Rightarrow> (Inl (BR_FAILED_REPLY, None), binder_user_error st)
      | Some in_reply_to \<Rightarrow>
         if t_to_thread (transactions st in_reply_to) \<noteq> Some thread
         then (Inl (BR_FAILED_REPLY, None), binder_user_error st)
         else
          (let st1 = upd_thread st thread
                       (\<lambda>th. th\<lparr>th_transaction_stack := t_to_parent (transactions st in_reply_to)\<rparr>)
           in case t_from (transactions st1 in_reply_to) of
                None \<Rightarrow> (Inl (BR_DEAD_REPLY, Some in_reply_to), st1)
              | Some target_thread \<Rightarrow>
                  if th_transaction_stack (threads st1 target_thread) \<noteq> Some in_reply_to
                  then (Inl (BR_FAILED_REPLY, None), binder_user_error st1)
                  else (Inr (th_proc (threads st1 target_thread), Some target_thread, None,
                             Some in_reply_to), st1)))"

definition binder_transaction_call_target ::
  "binder_state \<Rightarrow> nat \<Rightarrow> nat \<Rightarrow> binder_transaction_data \<Rightarrow> (target_result \<times> binder_state) option" where
  "binder_transaction_call_target st proc thread tr =
     (case (if tr_target_handle tr \<noteq> 0
            then (case binder_get_ref st proc (tr_target_handle tr) of
                    None \<Rightarrow> Inl (BR_FAILED_REPLY, binder_user_error st)
                  | Some ref \<Rightarrow> Inr (r_node (refs st ref)))
            else (case binder_context_mgr_node st of
                    None \<Rightarrow> Inl (BR_DEAD_REPLY, st)
                  | Some n \<Rightarrow> Inr n)) of
        Inl (e, st1) \<Rightarrow> Some (Inl (e, None), st1)
      | Inr target_node \<Rightarrow>
         (case n_proc (nodes st target_node) of
            None \<Rightarrow> Some (Inl (BR_DEAD_REPLY, None), st)
          | Some target_proc \<Rightarrow>
             if tr_flags tr AND TF_ONE_WAY = 0 \<and> th_transaction_stack (threads st thread) \<noteq> None
             then
               (case th_transaction_stack (threads st thread) of
                  None \<Rightarrow> Some (Inr (target_proc, None, Some target_node, None), st)
                | Some tmp \<Rightarrow>
                   if t_to_thread (transactions st tmp) \<noteq> Some thread
                   then Some (Inl (BR_FAILED_REPLY, None), binder_user_error st)
                   else
                    (case binder_transaction_stack_walk st (Some tmp) target_proc None of
                       None \<Rightarrow> None
                     | Some target_thread \<Rightarrow>
                         Some (Inr (target_proc, target_thread, Some target_node, None), st)))
             else Some (Inr (target_proc, None, Some target_node, None), st)))"

definition binder_transaction_target ::
  "binder_state \<Rightarrow> nat \<Rightarrow> nat \<Rightarrow> binder_transaction_data \<Rightarrow> bool
     \<Rightarrow> (target_result \<times> binder_state) option" where
  "binder_transaction_target st proc thread tr reply =
     (if reply then Some (binder_transaction_reply_target st proc thread)
      else binder_transaction_call_target st proc thread tr)"

text \<open>The end of \<^verbatim>\<open>binder_transaction\<close> behind the error labels, from
  \<^verbatim>\<open>BUG_ON(thread->return_error != BR_OK)\<close> on.\<close>

definition binder_transaction_failed ::
  "binder_state \<Rightarrow> nat \<Rightarrow> nat option \<Rightarrow> u32 \<Rightarrow> binder_state option" where
  "binder_transaction_failed st thread in_reply_to return_error =
     (let st1 = BUG_ON (th_return_error (threads st thread) \<noteq> BR_OK) st in
      case in_reply_to of
        Some irt \<Rightarrow>
          binder_send_failed_reply
            (upd_thread st1 thread (\<lambda>th. th\<lparr>th_return_error := BR_TRANSACTION_COMPLETE\<rparr>))
            irt return_error
      | None \<Rightarrow> Some (upd_thread st1 thread (\<lambda>th. th\<lparr>th_return_error := return_error\<rparr>)))"

text \<open>The end of the successful path, from \<^verbatim>\<open>if (reply)\<close> behind the loop to \<^verbatim>\<open>return\<close>.\<close>

definition binder_transaction_queue ::
  "binder_state \<Rightarrow> nat \<Rightarrow> bool \<Rightarrow> nat \<Rightarrow> nat \<Rightarrow> buffer_ptr \<Rightarrow> nat \<Rightarrow> nat option \<Rightarrow> nat option
     \<Rightarrow> nat option \<Rightarrow> binder_state" where
  "binder_transaction_queue st thread reply t tcomplete buf target_proc target_thread target_node
       in_reply_to =
     (let target_list0 = (case target_thread of
                            Some tt \<Rightarrow> Thread_todo tt
                          | None \<Rightarrow> Proc_todo target_proc);
          target_wait0 = (case target_thread of
                            Some tt \<Rightarrow> Some (Thread_wait tt)
                          | None \<Rightarrow> Some (Proc_wait target_proc));
          (target_list, target_wait, st1) =
            (if reply then
               (let sta = BUG_ON (b_async_transaction (buffer_at st buf)) st
                in (target_list0, target_wait0,
                    (case in_reply_to of
                       None \<Rightarrow> BUG sta
                     | Some irt \<Rightarrow> binder_pop_transaction sta target_thread irt)))
             else if t_flags (transactions st t) AND TF_ONE_WAY = 0 then
               (let sta = BUG_ON (b_async_transaction (buffer_at st buf)) st;
                    stb = upd_transaction sta t
                            (\<lambda>tn. tn\<lparr>t_need_reply := True,
                                      t_from_parent := th_transaction_stack (threads sta thread)\<rparr>)
                in (target_list0, target_wait0,
                    upd_thread stb thread (\<lambda>th. th\<lparr>th_transaction_stack := Some t\<rparr>)))
             else
               (case target_node of
                  None \<Rightarrow> (target_list0, target_wait0, BUG st)
                | Some n \<Rightarrow>
                   (let sta = BUG_ON (\<not> b_async_transaction (buffer_at st buf)) st
                    in if n_has_async_transaction (nodes sta n)
                       then (Node_async_todo n, None, sta)
                       else (target_list0, target_wait0,
                             upd_node sta n (\<lambda>nd. nd\<lparr>n_has_async_transaction := True\<rparr>)))));
          st2 = list_add_tail st1 (W_transaction t) target_list;
          st3 = list_add_tail st2 (W_transaction_complete tcomplete) (Thread_todo thread)
      in case target_wait of
           None \<Rightarrow> st3
         | Some q \<Rightarrow> wake_up_interruptible st3 q)"

text \<open>\<^verbatim>\<open>binder_transaction\<close>. \<open>current_files\<close> is \<^verbatim>\<open>current->files\<close>, \<open>mem_ok\<close> tells whether
  the pages for the buffer can be had, and \<open>uninit\<close> is the content of the stack slot of the
  local variable \<^verbatim>\<open>return_error\<close>, which is declared without an initialiser. The result is
  \<open>None\<close> when one of the two loops over a transaction stack does not end.\<close>

definition binder_transaction ::
  "binder_state \<Rightarrow> nat \<Rightarrow> nat \<Rightarrow> binder_transaction_data \<Rightarrow> bool \<Rightarrow> nat \<Rightarrow> bool \<Rightarrow> u32
     \<Rightarrow> binder_state option" where
  "binder_transaction st proc thread tr reply current_files mem_ok uninit =
     (case binder_transaction_target st proc thread tr reply of
        None \<Rightarrow> None
      | Some (Inl (return_error, in_reply_to), st1) \<Rightarrow>
          binder_transaction_failed st1 thread in_reply_to return_error
      | Some (Inr (target_proc, target_thread, target_node, in_reply_to), st1) \<Rightarrow>
         (case kzalloc st1 of
            (None, st2) \<Rightarrow> binder_transaction_failed st2 thread in_reply_to BR_FAILED_REPLY
          | (Some t, st2) \<Rightarrow>
             (case kzalloc st2 of
                (None, st3) \<Rightarrow>
                  binder_transaction_failed (kfree st3 t) thread in_reply_to BR_FAILED_REPLY
              | (Some tcomplete, st3) \<Rightarrow>
                 (let st4 = st3\<lparr>binder_last_id := binder_last_id st3 + 1\<rparr>;
                      is_async = (\<not> reply \<and> tr_flags tr AND TF_ONE_WAY \<noteq> 0);
                      st5 = st4\<lparr>transactions := (transactions st4)
                              (t := zero_transaction
                                 \<lparr>t_debug_id := binder_last_id st4,
                                  t_from := (if \<not> reply \<and> tr_flags tr AND TF_ONE_WAY = 0
                                             then Some thread else None),
                                  t_sender_euid := p_euid (procs st4 proc),
                                  t_to_proc := Some target_proc,
                                  t_to_thread := target_thread,
                                  t_code := tr_code tr,
                                  t_flags := tr_flags tr\<rparr>)\<rparr>
                  in case binder_alloc_buf (procs st5 target_proc) (tr_data_size tr)
                            (tr_offsets_size tr) is_async mem_ok of
                       (Inl failure, tp) \<Rightarrow>
                         binder_transaction_failed
                           (kfree (kfree (st5\<lparr>procs := (procs st5)(target_proc := tp)\<rparr>) tcomplete) t)
                           thread in_reply_to BR_FAILED_REPLY
                     | (Inr buffer, tp) \<Rightarrow>
                        (let buf = (target_proc, buffer);
                             st6 = st5\<lparr>procs := (procs st5)(target_proc := tp)\<rparr>;
                             st7 = upd_transaction st6 t (\<lambda>tn. tn\<lparr>t_buffer := Some buf\<rparr>);
                             st8 = upd_buffer st7 buf
                                     (\<lambda>b. b\<lparr>b_allow_user_free := False,
                                            b_debug_id := t_debug_id (transactions st7 t),
                                            b_transaction := Some t,
                                            b_target_node := target_node\<rparr>);
                             st9 = (case target_node of
                                      None \<Rightarrow> st8
                                    | Some n \<Rightarrow> snd (binder_inc_node st8 n True False None))
                         in case binder_transaction_fill st9 proc thread tr target_proc
                                   target_node in_reply_to reply buf current_files of
                              (Some (e, failed_at), st10) \<Rightarrow>
                                (let st11 = binder_transaction_buffer_release st10 target_proc buf
                                              (Some failed_at);
                                     st12 = upd_buffer st11 buf (\<lambda>b. b\<lparr>b_transaction := None\<rparr>);
                                     st13 = upd_proc st12 target_proc (\<lambda>p. binder_free_buf p buffer);
                                     st14 = kfree (kfree st13 tcomplete) t
                                 in binder_transaction_failed st14 thread in_reply_to
                                      (case e of Some c \<Rightarrow> c | None \<Rightarrow> uninit))
                            | (None, st10) \<Rightarrow>
                                Some (binder_transaction_queue st10 thread reply t tcomplete buf
                                        target_proc target_thread target_node in_reply_to))))))"

subsection \<open>\<^verbatim>\<open>BC_FREE_BUFFER\<close>\<close>

text \<open>\<^verbatim>\<open>case BC_FREE_BUFFER\<close> of \<^verbatim>\<open>binder_thread_write\<close>, with \<^verbatim>\<open>data_ptr\<close> read from the
  command stream.\<close>

definition bc_free_buffer :: "binder_state \<Rightarrow> nat \<Rightarrow> nat \<Rightarrow> u32 \<Rightarrow> binder_state" where
  "bc_free_buffer st proc thread data_ptr =
     (case binder_buffer_lookup (procs st proc) data_ptr of
        None \<Rightarrow> binder_user_error st
      | Some buffer \<Rightarrow>
         (let buf = (proc, buffer) in
          if \<not> b_allow_user_free (buffer_at st buf) then binder_user_error st
          else
           (let st1 = (case b_transaction (buffer_at st buf) of
                         None \<Rightarrow> st
                       | Some t \<Rightarrow>
                           upd_buffer (upd_transaction st t (\<lambda>tn. tn\<lparr>t_buffer := None\<rparr>)) buf
                             (\<lambda>b. b\<lparr>b_transaction := None\<rparr>));
                st2 = (case b_target_node (buffer_at st1 buf) of
                         None \<Rightarrow> st1
                       | Some n \<Rightarrow>
                          if b_async_transaction (buffer_at st1 buf) then
                            (let sta = BUG_ON (\<not> n_has_async_transaction (nodes st1 n)) st1
                             in if list_empty sta (Node_async_todo n)
                                then upd_node sta n (\<lambda>nd. nd\<lparr>n_has_async_transaction := False\<rparr>)
                                else list_move_tail sta (hd (queue sta (Node_async_todo n)))
                                       (Thread_todo thread))
                          else st1);
                st3 = binder_transaction_buffer_release st2 proc buf None
            in upd_proc st3 proc (\<lambda>p. binder_free_buf p buffer))))"

subsection \<open>Death notifications\<close>

text \<open>\<^verbatim>\<open>case BC_REQUEST_DEATH_NOTIFICATION: case BC_CLEAR_DEATH_NOTIFICATION:\<close> and
  \<^verbatim>\<open>case BC_DEAD_BINDER_DONE:\<close> of \<^verbatim>\<open>binder_thread_write\<close>, with \<^verbatim>\<open>target\<close> and \<^verbatim>\<open>cookie\<close>
  read from the command stream. The three of them end with the same choice of the list that
  takes the work item.\<close>

definition death_enqueue :: "binder_state \<Rightarrow> nat \<Rightarrow> nat \<Rightarrow> nat \<Rightarrow> binder_state" where
  "death_enqueue st proc thread death =
     (if looper_test st thread {BINDER_LOOPER_STATE_REGISTERED, BINDER_LOOPER_STATE_ENTERED}
      then list_add_tail st (W_death death) (Thread_todo thread)
      else wake_up_interruptible (list_add_tail st (W_death death) (Proc_todo proc))
             (Proc_wait proc))"

definition bc_request_death_notification ::
  "binder_state \<Rightarrow> nat \<Rightarrow> nat \<Rightarrow> nat \<Rightarrow> u32 \<Rightarrow> binder_state" where
  "bc_request_death_notification st proc thread target cookie =
     (case binder_get_ref st proc target of
        None \<Rightarrow> binder_user_error st
      | Some ref \<Rightarrow>
         if r_death (refs st ref) \<noteq> None then binder_user_error st
         else
          (case kzalloc st of
             (None, st1) \<Rightarrow> upd_thread st1 thread (\<lambda>th. th\<lparr>th_return_error := BR_ERROR\<rparr>)
           | (Some death, st1) \<Rightarrow>
              (let st2 = st1\<lparr>deaths := (deaths st1)(death := zero_death\<lparr>d_cookie := cookie\<rparr>),
                             linked := (linked st1)(W_death death := None)\<rparr>;
                   st3 = upd_ref st2 ref (\<lambda>r. r\<lparr>r_death := Some death\<rparr>)
               in if n_proc (nodes st3 (r_node (refs st3 ref))) = None then
                    death_enqueue
                      (upd_death st3 death (\<lambda>d. d\<lparr>d_work_type := Some BINDER_WORK_DEAD_BINDER\<rparr>))
                      proc thread death
                  else st3)))"

definition bc_clear_death_notification ::
  "binder_state \<Rightarrow> nat \<Rightarrow> nat \<Rightarrow> nat \<Rightarrow> u32 \<Rightarrow> binder_state" where
  "bc_clear_death_notification st proc thread target cookie =
     (case binder_get_ref st proc target of
        None \<Rightarrow> binder_user_error st
      | Some ref \<Rightarrow>
         (case r_death (refs st ref) of
            None \<Rightarrow> binder_user_error st
          | Some death \<Rightarrow>
             if d_cookie (deaths st death) \<noteq> cookie then binder_user_error st
             else
              (let st1 = upd_ref st ref (\<lambda>r. r\<lparr>r_death := None\<rparr>) in
               if linked st1 (W_death death) = None then
                 death_enqueue
                   (upd_death st1 death
                      (\<lambda>d. d\<lparr>d_work_type := Some BINDER_WORK_CLEAR_DEATH_NOTIFICATION\<rparr>))
                   proc thread death
               else
                 upd_death
                   (BUG_ON (d_work_type (deaths st1 death) \<noteq> Some BINDER_WORK_DEAD_BINDER) st1)
                   death (\<lambda>d. d\<lparr>d_work_type := Some BINDER_WORK_DEAD_BINDER_AND_CLEAR\<rparr>))))"

definition bc_dead_binder_done :: "binder_state \<Rightarrow> nat \<Rightarrow> nat \<Rightarrow> u32 \<Rightarrow> binder_state" where
  "bc_dead_binder_done st proc thread cookie =
     (case find (\<lambda>w. case w of W_death d \<Rightarrow> d_cookie (deaths st d) = cookie | _ \<Rightarrow> False)
             (queue st (Proc_delivered_death proc)) of
        Some (W_death death) \<Rightarrow>
          (let st1 = list_del_init st (W_death death) in
           if d_work_type (deaths st1 death) = Some BINDER_WORK_DEAD_BINDER_AND_CLEAR then
             death_enqueue
               (upd_death st1 death
                  (\<lambda>d. d\<lparr>d_work_type := Some BINDER_WORK_CLEAR_DEATH_NOTIFICATION\<rparr>))
               proc thread death
           else st1)
      | _ \<Rightarrow> binder_user_error st)"

text \<open>The part of \<^verbatim>\<open>binder_deferred_release\<close> that handles the nodes of the dying process:
  the body of \<^verbatim>\<open>hlist_for_each_entry(ref, pos, &node->refs, node_entry)\<close>, the body of
  \<^verbatim>\<open>while ((n = rb_first(&proc->nodes)))\<close>, and that loop.\<close>

definition binder_release_node_ref :: "nat \<Rightarrow> binder_state \<Rightarrow> binder_state" where
  "binder_release_node_ref ref st =
     (case r_death (refs st ref) of
        None \<Rightarrow> st
      | Some death \<Rightarrow>
          if linked st (W_death death) = None then
            wake_up_interruptible
              (list_add_tail
                 (upd_death st death (\<lambda>d. d\<lparr>d_work_type := Some BINDER_WORK_DEAD_BINDER\<rparr>))
                 (W_death death) (Proc_todo (r_proc (refs st ref))))
              (Proc_wait (r_proc (refs st ref)))
          else BUG st)"

definition binder_release_node :: "binder_state \<Rightarrow> nat \<Rightarrow> nat \<Rightarrow> binder_state" where
  "binder_release_node st proc node =
     (let st1 = upd_proc st proc (\<lambda>p. p\<lparr>p_nodes := rb_erase node (p_nodes p)\<rparr>);
          st2 = list_del_init st1 (W_node node)
      in if n_refs (nodes st2 node) = [] then kfree st2 node
         else
          (let st3 = upd_node st2 node
                       (\<lambda>n. n\<lparr>n_proc := None, n_local_strong_refs := 0, n_local_weak_refs := 0\<rparr>);
               st4 = st3\<lparr>binder_dead_nodes := node # binder_dead_nodes st3\<rparr>
           in fold binder_release_node_ref (n_refs (nodes st4 node)) st4))"

fun binder_release_nodes :: "nat \<Rightarrow> nat list \<Rightarrow> binder_state \<Rightarrow> binder_state" where
  "binder_release_nodes proc [] st = st"
| "binder_release_nodes proc (node # ns) st =
     binder_release_nodes proc ns (binder_release_node st proc node)"

subsection \<open>The work loop of \<^verbatim>\<open>binder_thread_read\<close>\<close>

text \<open>The choice of the work item at the head of the \<^verbatim>\<open>while (1)\<close> loop, and the body of
  the loop for the item chosen. The body yields how the loop goes on, the new state and the
  words stored into the read buffer, in order. \<open>ubuf_ok\<close> tells whether the read buffer is
  writable user memory: if not, the first \<^verbatim>\<open>put_user\<close> of the body returns \<^verbatim>\<open>-EFAULT\<close>.\<close>

datatype read_flow = Read_continue | Read_break | Read_done | Read_fault

definition binder_thread_read_first ::
  "binder_state \<Rightarrow> nat \<Rightarrow> nat \<Rightarrow> bool \<Rightarrow> binder_work option" where
  "binder_thread_read_first st proc thread wait_for_proc_work =
     (if \<not> list_empty st (Thread_todo thread) then Some (hd (queue st (Thread_todo thread)))
      else if \<not> list_empty st (Proc_todo proc) \<and> wait_for_proc_work
      then Some (hd (queue st (Proc_todo proc)))
      else None)"

text \<open>\<^verbatim>\<open>case BINDER_WORK_NODE\<close>.\<close>

definition binder_thread_read_node ::
  "binder_state \<Rightarrow> nat \<Rightarrow> nat \<Rightarrow> bool \<Rightarrow> read_flow \<times> binder_state \<times> u32 list" where
  "binder_thread_read_node st proc node ubuf_ok =
     (let n = nodes st node;
          strong = (n_internal_strong_refs n \<noteq> 0 \<or> n_local_strong_refs n \<noteq> 0);
          weak = (n_refs n \<noteq> [] \<or> n_local_weak_refs n \<noteq> 0 \<or> strong);
          (cmd, st1) =
            (if weak \<and> \<not> n_has_weak_ref n then
               (BR_INCREFS, upd_node st node
                  (\<lambda>n. n\<lparr>n_has_weak_ref := True, n_pending_weak_ref := True,
                         n_local_weak_refs := n_local_weak_refs n + 1\<rparr>))
             else if strong \<and> \<not> n_has_strong_ref n then
               (BR_ACQUIRE, upd_node st node
                  (\<lambda>n. n\<lparr>n_has_strong_ref := True, n_pending_strong_ref := True,
                         n_local_strong_refs := n_local_strong_refs n + 1\<rparr>))
             else if \<not> strong \<and> n_has_strong_ref n then
               (BR_RELEASE, upd_node st node (\<lambda>n. n\<lparr>n_has_strong_ref := False\<rparr>))
             else if \<not> weak \<and> n_has_weak_ref n then
               (BR_DECREFS, upd_node st node (\<lambda>n. n\<lparr>n_has_weak_ref := False\<rparr>))
             else (BR_NOOP, st))
      in if cmd \<noteq> BR_NOOP then
           (if ubuf_ok then (Read_continue, st1, [cmd, n_ptr n, n_cookie n])
            else (Read_fault, st1, []))
         else
           (let st2 = list_del_init st1 (W_node node) in
            if \<not> weak \<and> \<not> strong then
              (Read_continue,
               kfree (upd_proc st2 proc (\<lambda>p. p\<lparr>p_nodes := rb_erase node (p_nodes p)\<rparr>)) node, [])
            else (Read_continue, st2, [])))"

text \<open>\<^verbatim>\<open>case BINDER_WORK_DEAD_BINDER: case BINDER_WORK_DEAD_BINDER_AND_CLEAR:
  case BINDER_WORK_CLEAR_DEATH_NOTIFICATION:\<close>. The code stores no other type into a death
  record; with another type the \<^verbatim>\<open>switch\<close> does nothing.\<close>

definition binder_thread_read_death ::
  "binder_state \<Rightarrow> nat \<Rightarrow> nat \<Rightarrow> bool \<Rightarrow> read_flow \<times> binder_state \<times> u32 list" where
  "binder_thread_read_death st proc death ubuf_ok =
     (if d_work_type (deaths st death) = Some BINDER_WORK_CLEAR_DEATH_NOTIFICATION then
        (if ubuf_ok
         then (Read_continue, kfree (list_del st (W_death death)) death,
               [BR_CLEAR_DEATH_NOTIFICATION_DONE, d_cookie (deaths st death)])
         else (Read_fault, st, []))
      else if d_work_type (deaths st death) = Some BINDER_WORK_DEAD_BINDER \<or>
              d_work_type (deaths st death) = Some BINDER_WORK_DEAD_BINDER_AND_CLEAR then
        (if ubuf_ok
         then (Read_done, list_move st (W_death death) (Proc_delivered_death proc),
               [BR_DEAD_BINDER, d_cookie (deaths st death)])
         else (Read_fault, st, []))
      else (Read_continue, st, []))"

text \<open>The delivery of a transaction, behind the \<^verbatim>\<open>switch\<close>. The words stored are the
  command and the ten words of \<^verbatim>\<open>struct binder_transaction_data\<close>.\<close>

definition binder_thread_read_transaction ::
  "binder_state \<Rightarrow> nat \<Rightarrow> nat \<Rightarrow> nat \<Rightarrow> bool \<Rightarrow> read_flow \<times> binder_state \<times> u32 list" where
  "binder_thread_read_transaction st proc thread t ubuf_ok =
     (case t_buffer (transactions st t) of
        None \<Rightarrow> (Read_fault, BUG st, [])
      | Some buf \<Rightarrow>
         (let b = buffer_at st buf;
              tn = transactions st t;
              cmd = (if b_target_node b \<noteq> None then BR_TRANSACTION else BR_REPLY);
              target_ptr = (case b_target_node b of Some n \<Rightarrow> n_ptr (nodes st n) | None \<Rightarrow> 0);
              cookie = (case b_target_node b of Some n \<Rightarrow> n_cookie (nodes st n) | None \<Rightarrow> 0);
              sender_pid = (case t_from tn of
                              Some f \<Rightarrow> of_int (p_pid (procs st (th_proc (threads st f))))
                            | None \<Rightarrow> 0);
              data_buffer = of_int (int (buffer_data (snd buf)) + p_user_buffer_offset (procs st proc));
              data_offsets = data_buffer + of_nat (ALIGN_ptr (b_data_size b))
          in if \<not> ubuf_ok then (Read_fault, st, [])
             else
              (let st1 = list_del st (W_transaction t);
                   st2 = upd_buffer st1 buf (\<lambda>b. b\<lparr>b_allow_user_free := True\<rparr>);
                   st3 = (if cmd = BR_TRANSACTION \<and> t_flags tn AND TF_ONE_WAY = 0 then
                            upd_thread
                              (upd_transaction st2 t
                                 (\<lambda>tn. tn\<lparr>t_to_parent := th_transaction_stack (threads st2 thread),
                                           t_to_thread := Some thread\<rparr>))
                              thread (\<lambda>th. th\<lparr>th_transaction_stack := Some t\<rparr>)
                          else
                            kfree (upd_buffer st2 buf (\<lambda>b. b\<lparr>b_transaction := None\<rparr>)) t)
               in (Read_break, st3,
                   [cmd, target_ptr, cookie, t_code tn, t_flags tn, sender_pid, t_sender_euid tn,
                    of_nat (b_data_size b), of_nat (b_offsets_size b), data_buffer, data_offsets]))))"

definition binder_thread_read_work ::
  "binder_state \<Rightarrow> nat \<Rightarrow> nat \<Rightarrow> binder_work \<Rightarrow> bool \<Rightarrow> read_flow \<times> binder_state \<times> u32 list" where
  "binder_thread_read_work st proc thread w ubuf_ok =
     (case w of
        W_transaction t \<Rightarrow> binder_thread_read_transaction st proc thread t ubuf_ok
      | W_transaction_complete c \<Rightarrow>
          if ubuf_ok then (Read_continue, kfree (list_del st w) c, [BR_TRANSACTION_COMPLETE])
          else (Read_fault, st, [])
      | W_node node \<Rightarrow> binder_thread_read_node st proc node ubuf_ok
      | W_death death \<Rightarrow> binder_thread_read_death st proc death ubuf_ok)"

subsection \<open>Runs of the death notification protocol\<close>

text \<open>A death record is \<^emph>\<open>pending\<close> when the next read that reaches it stores
  \<^verbatim>\<open>BR_DEAD_BINDER\<close>: it is typed \<^verbatim>\<open>DEAD_BINDER\<close> or \<^verbatim>\<open>DEAD_BINDER_AND_CLEAR\<close> and sits on
  the todo list of a thread or of a process.\<close>

fun todo_list :: "list_head \<Rightarrow> bool" where
  "todo_list (Thread_todo t) = True"
| "todo_list (Proc_todo p) = True"
| "todo_list (Node_async_todo n) = False"
| "todo_list (Proc_delivered_death p) = False"

definition dead_binder_type :: "binder_state \<Rightarrow> nat \<Rightarrow> bool" where
  "dead_binder_type st d \<longleftrightarrow>
     d_work_type (deaths st d) = Some BINDER_WORK_DEAD_BINDER \<or>
     d_work_type (deaths st d) = Some BINDER_WORK_DEAD_BINDER_AND_CLEAR"

definition death_pending :: "binder_state \<Rightarrow> nat \<Rightarrow> bool" where
  "death_pending st d \<longleftrightarrow>
     dead_binder_type st d \<and> (\<exists>L. todo_list L \<and> W_death d \<in> set (queue st L))"

text \<open>The structure that the death notification code relies on, for a state \<open>st\<close> and the
  list \<open>ds\<close> of the death records that a read has delivered as \<^verbatim>\<open>BR_DEAD_BINDER\<close> so far:
  the records in use were allocated, a delivered record is not pending, a record held by a
  reference is either untouched and undelivered or typed \<^verbatim>\<open>DEAD_BINDER\<close> with the node
  dead, no two references hold the same record, and the nodes in the tree of a process are
  its own, once each, with references that point back at them.\<close>

definition death_inv :: "binder_state \<Rightarrow> nat list \<Rightarrow> bool" where
  "death_inv st ds \<longleftrightarrow>
     (\<forall>d\<in>set ds. d < kmem_next st \<and> \<not> death_pending st d) \<and>
     (\<forall>L d. W_death d \<in> set (queue st L) \<longrightarrow> d < kmem_next st) \<and>
     (\<forall>r d. r_death (refs st r) = Some d \<longrightarrow>
        d < kmem_next st \<and>
        (d_work_type (deaths st d) = None \<and> d \<notin> set ds \<or>
         d_work_type (deaths st d) = Some BINDER_WORK_DEAD_BINDER \<and>
         n_proc (nodes st (r_node (refs st r))) = None)) \<and>
     (\<forall>r r' d. r_death (refs st r) = Some d \<and> r_death (refs st r') = Some d \<longrightarrow> r = r') \<and>
     (\<forall>p. distinct (p_nodes (procs st p)) \<and>
          (\<forall>n\<in>set (p_nodes (procs st p)). n_proc (nodes st n) = Some p)) \<and>
     (\<forall>n. \<forall>r\<in>set (n_refs (nodes st n)). r_node (refs st r) = n)"

text \<open>The runs: from a state with that structure and nothing delivered, by the three
  commands, by the orphaning of a node of a dying process, and by one turn of the work loop
  of a read on the work item that it finds first. The second component is the list of the
  death records for which the read stored \<^verbatim>\<open>BR_DEAD_BINDER\<close>, in order.\<close>

definition dead_binder_read :: "binder_work \<Rightarrow> u32 list \<Rightarrow> nat list" where
  "dead_binder_read w out =
     (case w of
        W_death d \<Rightarrow> if take 1 out = [BR_DEAD_BINDER] then [d] else []
      | _ \<Rightarrow> [])"

inductive death_trace :: "binder_state \<Rightarrow> nat list \<Rightarrow> bool" where
  start:
    "death_inv st [] \<Longrightarrow> death_trace st []"
| request:
    "death_trace st ds \<Longrightarrow>
     death_trace (bc_request_death_notification st proc thread target cookie) ds"
| clear:
    "death_trace st ds \<Longrightarrow>
     death_trace (bc_clear_death_notification st proc thread target cookie) ds"
| dead_binder_done:
    "death_trace st ds \<Longrightarrow> death_trace (bc_dead_binder_done st proc thread cookie) ds"
| orphan:
    "death_trace st ds \<Longrightarrow> node \<in> set (p_nodes (procs st proc)) \<Longrightarrow>
     death_trace (binder_release_node st proc node) ds"
| read:
    "death_trace st ds \<Longrightarrow>
     binder_thread_read_first st proc thread wait_for_proc_work = Some w \<Longrightarrow>
     binder_thread_read_work st proc thread w ubuf_ok = (flow, st', out) \<Longrightarrow>
     death_trace st' (ds @ dead_binder_read w out)"

section \<open>Properties\<close>

subsection \<open>Thread pool\<close>






text \<open>Claim C9, as stated, fails: the two counter conditions do not suffice. A worker that
  has neither REGISTERED nor ENTERED reaches the end of its read with
  \<^verbatim>\<open>requested_threads + ready_threads == 0\<close> and \<^verbatim>\<open>requested_threads_started < max_threads\<close>,
  and no \<^verbatim>\<open>BR_SPAWN_LOOPER\<close> is written.\<close>

theorem spawn_looper_counterexample:
  "p_requested_threads (procs ((binder_init_state 0)\<lparr>procs := (procs (binder_init_state 0))
       (1 := zero_proc\<lparr>p_max_threads := 15\<rparr>)\<rparr>) 1) +
   p_ready_threads (procs ((binder_init_state 0)\<lparr>procs := (procs (binder_init_state 0))
       (1 := zero_proc\<lparr>p_max_threads := 15\<rparr>)\<rparr>) 1) = 0 \<and>
   p_requested_threads_started (procs ((binder_init_state 0)\<lparr>procs := (procs (binder_init_state 0))
       (1 := zero_proc\<lparr>p_max_threads := 15\<rparr>)\<rparr>) 1)
     < p_max_threads (procs ((binder_init_state 0)\<lparr>procs := (procs (binder_init_state 0))
       (1 := zero_proc\<lparr>p_max_threads := 15\<rparr>)\<rparr>) 1) \<and>
   binder_thread_read_done ((binder_init_state 0)\<lparr>procs := (procs (binder_init_state 0))
       (1 := zero_proc\<lparr>p_max_threads := 15\<rparr>)\<rparr>) 1 2 True =
     (0, (binder_init_state 0)\<lparr>procs := (procs (binder_init_state 0))
       (1 := zero_proc\<lparr>p_max_threads := 15\<rparr>)\<rparr>, [])"
  by (simp add: binder_thread_read_done_def spawn_looper_wanted_def looper_test_def
      binder_init_state_def zero_proc_def zero_thread_def)

text \<open>Claim C9, amended. At the \<^verbatim>\<open>done\<close> exit of a read into a writable buffer, the
  driver stores \<^verbatim>\<open>BR_SPAWN_LOOPER\<close> at the start of the read buffer and increments
  \<^verbatim>\<open>requested_threads\<close> exactly when \<^verbatim>\<open>requested_threads + ready_threads == 0\<close>,
  \<^verbatim>\<open>requested_threads_started < max_threads\<close> and the reading worker has REGISTERED or
  ENTERED; in every other case the exit stores nothing and leaves the state as it is.\<close>

theorem spawn_looper_at_done:
  "(spawn_looper_wanted st proc thread \<and> ubuf_ok \<longrightarrow>
      fst (binder_thread_read_done st proc thread ubuf_ok) = 0 \<and>
      snd (snd (binder_thread_read_done st proc thread ubuf_ok)) = [(0, BR_SPAWN_LOOPER)] \<and>
      p_requested_threads (procs (fst (snd (binder_thread_read_done st proc thread ubuf_ok))) proc) =
        p_requested_threads (procs st proc) + 1) \<and>
   (\<not> spawn_looper_wanted st proc thread \<longrightarrow>
      binder_thread_read_done st proc thread ubuf_ok = (0, st, [])) \<and>
   (spawn_looper_wanted st proc thread \<longleftrightarrow>
      p_requested_threads (procs st proc) + p_ready_threads (procs st proc) = 0 \<and>
      p_requested_threads_started (procs st proc) < p_max_threads (procs st proc) \<and>
      (BINDER_LOOPER_STATE_REGISTERED \<in> th_looper (threads st thread) \<or>
       BINDER_LOOPER_STATE_ENTERED \<in> th_looper (threads st thread)))"
  by (auto simp: binder_thread_read_done_def spawn_looper_wanted_def looper_test_def
      upd_proc_def Let_def)


theorem spawn_looper_at_done_witness:
  "spawn_looper_wanted
     (looper_set (upd_proc (binder_init_state 0) 1 (\<lambda>p. p\<lparr>p_max_threads := 15\<rparr>)) 2
        BINDER_LOOPER_STATE_ENTERED) 1 2 \<and>
   snd (snd (binder_thread_read_done
     (looper_set (upd_proc (binder_init_state 0) 1 (\<lambda>p. p\<lparr>p_max_threads := 15\<rparr>)) 2
        BINDER_LOOPER_STATE_ENTERED) 1 2 True)) = [(0, BR_SPAWN_LOOPER)] \<and>
   \<not> spawn_looper_wanted (upd_proc (binder_init_state 0) 1 (\<lambda>p. p\<lparr>p_max_threads := 15\<rparr>)) 1 2 \<and>
   snd (snd (binder_thread_read_done
     (upd_proc (binder_init_state 0) 1 (\<lambda>p. p\<lparr>p_max_threads := 15\<rparr>)) 1 2 True)) = []"
proof -
  let ?I = "upd_proc (binder_init_state 0) 1 (\<lambda>p. p\<lparr>p_max_threads := 15\<rparr>)"
  let ?J = "looper_set ?I 2 BINDER_LOOPER_STATE_ENTERED"
  have w: "spawn_looper_wanted ?J 1 2"
    by (simp add: spawn_looper_wanted_def looper_test_def looper_set_def upd_thread_def
        upd_proc_def binder_init_state_def zero_proc_def zero_thread_def)
  have nw: "\<not> spawn_looper_wanted ?I 1 2"
    by (simp add: spawn_looper_wanted_def looper_test_def
        upd_proc_def binder_init_state_def zero_proc_def zero_thread_def)
  have a: "snd (snd (binder_thread_read_done ?J 1 2 True)) = [(0, BR_SPAWN_LOOPER)]"
    using spawn_looper_at_done [of ?J 1 2 True, THEN conjunct1] w
    by blast
  have b: "snd (snd (binder_thread_read_done ?I 1 2 True)) = []"
    using spawn_looper_at_done [of ?I 1 2 True, THEN conjunct2, THEN conjunct1] nw
    by simp
  from w nw a b show ?thesis by blast
qed

subsection \<open>Nodes and references\<close>

lemma new_ref_desc_least:
  "sorted_wrt (<) xs \<Longrightarrow> \<forall>x\<in>set xs. x < 2 ^ 32 - 1 \<and> s \<le> x + 1 \<Longrightarrow>
   s \<le> new_ref_desc s xs \<and> new_ref_desc s xs \<notin> set xs \<and>
   (\<forall>m. s \<le> m \<and> m < new_ref_desc s xs \<longrightarrow> m \<in> set xs)"
proof (induction xs arbitrary: s)
  case Nil
  then show ?case by simp
next
  case (Cons x xs)
  show ?case
  proof (cases "x > s")
    case True
    with Cons.prems show ?thesis by fastforce
  next
    case False
    from Cons.prems have x: "x < 2 ^ 32 - 1" "s \<le> x + 1" by auto
    then have md: "(x + 1) mod 2 ^ 32 = x + 1" by simp
    from Cons.prems have srt: "sorted_wrt (<) xs" and gt: "\<forall>y\<in>set xs. x < y" by auto
    from Cons.prems gt have pre: "\<forall>y\<in>set xs. y < 2 ^ 32 - 1 \<and> x + 1 \<le> y + 1" by auto
    note IH = Cons.IH [OF srt pre]
    have eq: "new_ref_desc s (x # xs) = new_ref_desc (x + 1) xs"
      using False md by simp
    show ?thesis
      unfolding eq using IH False x
      by (auto simp: le_Suc_eq) (metis Suc_leI le_neq_implies_less)
  qed
qed

lemma refs_binder_dec_node [simp]: "refs (snd (binder_dec_node st n s i)) = refs st"
  by (simp add: binder_dec_node_def Let_def upd_node_def upd_proc_def kfree_def list_del_init_def
      list_del_def list_add_tail_def wake_up_interruptible_def split: option.splits)

lemma refs_binder_inc_node [simp]: "refs (snd (binder_inc_node st n s i tg)) = refs st"
  by (simp add: binder_inc_node_def Let_def upd_node_def list_del_init_def
      list_del_def list_add_tail_def split: option.splits)

lemma refs_binder_delete_ref [simp]: "refs (binder_delete_ref st r) = refs st"
  by (simp add: binder_delete_ref_def Let_def upd_node_def upd_proc_def kfree_def
      list_del_def split: option.splits)


lemma refs_binder_user_error [simp]: "refs (binder_user_error st) = refs st"
  by (simp add: binder_user_error_def)

lemma r_desc_binder_inc_ref: "r_desc (refs (snd (binder_inc_ref st x s tg)) r) = r_desc (refs st r)"
  by (auto simp: binder_inc_ref_def upd_ref_def split: prod.splits)
     (metis refs_binder_inc_node snd_conv)+

lemma r_desc_binder_dec_ref: "r_desc (refs (snd (binder_dec_ref st x s)) r) = r_desc (refs st r)"
  by (simp add: binder_dec_ref_def upd_ref_def Let_def)

lemma dec_ref_counts:
  "r_strong (refs (snd (binder_dec_ref st x s)) r) =
     (if r = x \<and> s \<and> r_strong (refs st x) \<noteq> 0 then r_strong (refs st r) - 1 else r_strong (refs st r))"
  "r_weak (refs (snd (binder_dec_ref st x s)) r) =
     (if r = x \<and> \<not> s \<and> r_weak (refs st x) \<noteq> 0 then r_weak (refs st r) - 1 else r_weak (refs st r))"
  by (auto simp: binder_dec_ref_def upd_ref_def Let_def)

text \<open>Claim C10. A \<^verbatim>\<open>BC_RELEASE\<close> (strong) or \<^verbatim>\<open>BC_DECREFS\<close> (weak) on a reference whose
  count of that kind is already zero is rejected as a user error: \<^verbatim>\<open>binder_dec_ref\<close>
  returns \<^verbatim>\<open>-EINVAL\<close> and the command leaves the state as \<^verbatim>\<open>binder_user_error\<close> leaves it,
  so the references with their counts, the nodes with their counters, the process trees and
  the set of live objects are unchanged. No decrement ever takes a count below zero.\<close>

theorem dec_ref_at_zero_rejected:
  "(r_strong (refs st ref) = 0 \<longrightarrow>
      binder_dec_ref st ref True = (- EINVAL, binder_user_error st) \<and>
      (binder_get_ref st proc target = Some ref \<longrightarrow>
         bc_refs st proc thread BC_RELEASE target = binder_user_error st)) \<and>
   (r_weak (refs st ref) = 0 \<longrightarrow>
      binder_dec_ref st ref False = (- EINVAL, binder_user_error st) \<and>
      (binder_get_ref st proc target = Some ref \<longrightarrow>
         bc_refs st proc thread BC_DECREFS target = binder_user_error st)) \<and>
   refs (binder_user_error st) = refs st \<and> nodes (binder_user_error st) = nodes st \<and>
   procs (binder_user_error st) = procs st \<and> heap (binder_user_error st) = heap st \<and>
   queue (binder_user_error st) = queue st \<and>
   user_errors (binder_user_error st) = user_errors st + 1 \<and>
   (0 \<le> r_strong (refs st r) \<longrightarrow> 0 \<le> r_strong (refs (snd (binder_dec_ref st ref strong)) r)) \<and>
   (0 \<le> r_weak (refs st r) \<longrightarrow> 0 \<le> r_weak (refs (snd (binder_dec_ref st ref strong)) r))"
  by (auto simp: dec_ref_counts)
     (auto simp: binder_dec_ref_def bc_refs_def binder_user_error_def)


theorem dec_ref_at_zero_rejected_witness:
  "r_strong (refs ((binder_init_state 0)\<lparr>refs := (refs (binder_init_state 0))
        (5 := zero_ref\<lparr>r_node := 7, r_desc := 3, r_proc := 1, r_weak := 1\<rparr>),
      procs := (procs (binder_init_state 0))
        (1 := zero_proc\<lparr>p_refs_by_desc := [5], p_refs_by_node := [5]\<rparr>)\<rparr>) 5) = 0 \<and>
   bc_refs ((binder_init_state 0)\<lparr>refs := (refs (binder_init_state 0))
        (5 := zero_ref\<lparr>r_node := 7, r_desc := 3, r_proc := 1, r_weak := 1\<rparr>),
      procs := (procs (binder_init_state 0))
        (1 := zero_proc\<lparr>p_refs_by_desc := [5], p_refs_by_node := [5]\<rparr>)\<rparr>) 1 2 BC_RELEASE 3 =
   binder_user_error ((binder_init_state 0)\<lparr>refs := (refs (binder_init_state 0))
        (5 := zero_ref\<lparr>r_node := 7, r_desc := 3, r_proc := 1, r_weak := 1\<rparr>),
      procs := (procs (binder_init_state 0))
        (1 := zero_proc\<lparr>p_refs_by_desc := [5], p_refs_by_node := [5]\<rparr>)\<rparr>)"
proof -
  let ?A = "(binder_init_state 0)\<lparr>refs := (refs (binder_init_state 0))
        (5 := zero_ref\<lparr>r_node := 7, r_desc := 3, r_proc := 1, r_weak := 1\<rparr>),
      procs := (procs (binder_init_state 0))
        (1 := zero_proc\<lparr>p_refs_by_desc := [5], p_refs_by_node := [5]\<rparr>)\<rparr>"
  have z: "r_strong (refs ?A 5) = 0" by (simp add: zero_ref_def)
  have g: "binder_get_ref ?A 1 3 = Some 5" by (simp add: binder_get_ref_def zero_ref_def)
  from dec_ref_at_zero_rejected [of ?A 5 1 3 2, THEN conjunct1, rule_format, OF z, THEN conjunct2,
      rule_format, OF g] z
  show ?thesis by blast
qed

lemma get_ref_for_node_new:
  assumes nf: "find (\<lambda>r. r_node (refs st r) = node) (p_refs_by_node (procs st proc)) = None"
      and av: "0 < kmem_avail st"
  shows "binder_get_ref_for_node st proc node =
           (Some (kmem_next st), snd (binder_get_ref_for_node st proc node))"
    and "r_desc (refs (snd (binder_get_ref_for_node st proc node)) (kmem_next st)) =
           new_ref_desc (if Some node = binder_context_mgr_node st then 0 else 1)
             (map (\<lambda>r. r_desc (refs st r)) (p_refs_by_desc (procs st proc)))"
    and "r \<noteq> kmem_next st \<Longrightarrow> refs (snd (binder_get_ref_for_node st proc node)) r = refs st r"
  using nf av
  by (simp_all add: binder_get_ref_for_node_def kzalloc_def Let_def upd_proc_def upd_node_def
      BUG_ON_def BUG_def)

text \<open>Claim C3, as stated, fails for the context manager: a process that still holds
  descriptor 0 (here reference 5, to the node 7 of an earlier manager) gets descriptor 1 for
  its new reference to the current context-manager node 9.\<close>

theorem context_mgr_desc_counterexample:
  "binder_context_mgr_node ((binder_init_state 1)\<lparr>refs := (refs (binder_init_state 1))
        (5 := zero_ref\<lparr>r_node := 7, r_desc := 0, r_proc := 1, r_weak := 1\<rparr>),
      procs := (procs (binder_init_state 1))
        (1 := zero_proc\<lparr>p_refs_by_desc := [5], p_refs_by_node := [5]\<rparr>),
      binder_context_mgr_node := Some 9, kmem_next := 20\<rparr>) = Some 9 \<and>
   fst (binder_get_ref_for_node ((binder_init_state 1)\<lparr>refs := (refs (binder_init_state 1))
        (5 := zero_ref\<lparr>r_node := 7, r_desc := 0, r_proc := 1, r_weak := 1\<rparr>),
      procs := (procs (binder_init_state 1))
        (1 := zero_proc\<lparr>p_refs_by_desc := [5], p_refs_by_node := [5]\<rparr>),
      binder_context_mgr_node := Some 9, kmem_next := 20\<rparr>) 1 9) = Some 20 \<and>
   r_desc (refs (snd (binder_get_ref_for_node ((binder_init_state 1)\<lparr>refs := (refs (binder_init_state 1))
        (5 := zero_ref\<lparr>r_node := 7, r_desc := 0, r_proc := 1, r_weak := 1\<rparr>),
      procs := (procs (binder_init_state 1))
        (1 := zero_proc\<lparr>p_refs_by_desc := [5], p_refs_by_node := [5]\<rparr>),
      binder_context_mgr_node := Some 9, kmem_next := 20\<rparr>) 1 9)) 20) = 1"
  by (simp add: binder_get_ref_for_node_def kzalloc_def Let_def upd_proc_def upd_node_def
      BUG_ON_def BUG_def binder_init_state_def zero_ref_def zero_proc_def rb_insert_def)

text \<open>Claim C3, amended. A new reference to node N in process P gets the smallest
  descriptor not used by any of P's references, counted from 0 if N is the context-manager
  node and from 1 otherwise (so the context manager gets 0 unless P already uses 0). Creating
  it, and every later increment or decrement, leaves the descriptor of every other reference
  as it was. (P's descriptors ascend strictly along \<^verbatim>\<open>refs_by_desc\<close> and stay below
  \<^verbatim>\<open>UINT_MAX\<close>.)\<close>

theorem new_ref_descriptor:
  assumes nf: "find (\<lambda>r. r_node (refs st r) = node) (p_refs_by_node (procs st proc)) = None"
      and av: "0 < kmem_avail st"
      and srt: "sorted_wrt (<) (map (\<lambda>r. r_desc (refs st r)) (p_refs_by_desc (procs st proc)))"
      and bnd: "\<forall>r\<in>set (p_refs_by_desc (procs st proc)). r_desc (refs st r) < 2 ^ 32 - 1"
  shows "fst (binder_get_ref_for_node st proc node) = Some (kmem_next st) \<and>
         (if Some node = binder_context_mgr_node st then 0 else 1)
            \<le> r_desc (refs (snd (binder_get_ref_for_node st proc node)) (kmem_next st)) \<and>
         (\<forall>r\<in>set (p_refs_by_desc (procs st proc)).
            r_desc (refs st r) \<noteq> r_desc (refs (snd (binder_get_ref_for_node st proc node)) (kmem_next st))) \<and>
         (\<forall>m. (if Some node = binder_context_mgr_node st then 0 else 1) \<le> m \<and>
               m < r_desc (refs (snd (binder_get_ref_for_node st proc node)) (kmem_next st)) \<longrightarrow>
               (\<exists>r\<in>set (p_refs_by_desc (procs st proc)). r_desc (refs st r) = m)) \<and>
         (\<forall>r. r \<noteq> kmem_next st \<longrightarrow>
               r_desc (refs (snd (binder_get_ref_for_node st proc node)) r) = r_desc (refs st r)) \<and>
         (\<forall>r x s tg. r_desc (refs (snd (binder_inc_ref st x s tg)) r) = r_desc (refs st r)) \<and>
         (\<forall>r x s. r_desc (refs (snd (binder_dec_ref st x s)) r) = r_desc (refs st r))"
proof -
  let ?s = "if Some node = binder_context_mgr_node st then 0 else 1 :: nat"
  let ?ds = "map (\<lambda>r. r_desc (refs st r)) (p_refs_by_desc (procs st proc))"
  have pre: "\<forall>x\<in>set ?ds. x < 2 ^ 32 - 1 \<and> ?s \<le> x + 1" using bnd by auto
  note L = new_ref_desc_least [OF srt pre]
  note G = get_ref_for_node_new [OF nf av]
  have 1: "fst (binder_get_ref_for_node st proc node) = Some (kmem_next st)"
    using G(1) by (metis fst_conv)
  have 2: "?s \<le> r_desc (refs (snd (binder_get_ref_for_node st proc node)) (kmem_next st))"
    unfolding G(2) using L by blast
  have 3: "\<forall>r\<in>set (p_refs_by_desc (procs st proc)).
            r_desc (refs st r) \<noteq> r_desc (refs (snd (binder_get_ref_for_node st proc node)) (kmem_next st))"
    unfolding G(2) using L by (auto simp: image_iff split: if_splits)
  have 4: "\<forall>m. ?s \<le> m \<and>
               m < r_desc (refs (snd (binder_get_ref_for_node st proc node)) (kmem_next st)) \<longrightarrow>
               (\<exists>r\<in>set (p_refs_by_desc (procs st proc)). r_desc (refs st r) = m)"
    unfolding G(2) using L by (auto simp: image_iff split: if_splits)
  have 5: "\<forall>r. r \<noteq> kmem_next st \<longrightarrow>
               r_desc (refs (snd (binder_get_ref_for_node st proc node)) r) = r_desc (refs st r)"
    using G(3) by simp
  from 1 2 3 4 5 r_desc_binder_inc_ref r_desc_binder_dec_ref show ?thesis by blast
qed


theorem new_ref_descriptor_witness:
  "fst (binder_get_ref_for_node ((binder_init_state 1)\<lparr>refs := (refs (binder_init_state 1))
        (5 := zero_ref\<lparr>r_node := 7, r_desc := 1, r_proc := 1, r_weak := 1\<rparr>),
      procs := (procs (binder_init_state 1))
        (1 := zero_proc\<lparr>p_refs_by_desc := [5], p_refs_by_node := [5]\<rparr>),
      kmem_next := 20\<rparr>) 1 8) = Some 20 \<and>
   r_desc (refs (snd (binder_get_ref_for_node ((binder_init_state 1)\<lparr>refs := (refs (binder_init_state 1))
        (5 := zero_ref\<lparr>r_node := 7, r_desc := 1, r_proc := 1, r_weak := 1\<rparr>),
      procs := (procs (binder_init_state 1))
        (1 := zero_proc\<lparr>p_refs_by_desc := [5], p_refs_by_node := [5]\<rparr>),
      kmem_next := 20\<rparr>) 1 8)) 20) \<noteq> 1 \<and>
   1 \<le> r_desc (refs (snd (binder_get_ref_for_node ((binder_init_state 1)\<lparr>refs := (refs (binder_init_state 1))
        (5 := zero_ref\<lparr>r_node := 7, r_desc := 1, r_proc := 1, r_weak := 1\<rparr>),
      procs := (procs (binder_init_state 1))
        (1 := zero_proc\<lparr>p_refs_by_desc := [5], p_refs_by_node := [5]\<rparr>),
      kmem_next := 20\<rparr>) 1 8)) 20)"
proof -
  let ?A = "(binder_init_state 1)\<lparr>refs := (refs (binder_init_state 1))
        (5 := zero_ref\<lparr>r_node := 7, r_desc := 1, r_proc := 1, r_weak := 1\<rparr>),
      procs := (procs (binder_init_state 1))
        (1 := zero_proc\<lparr>p_refs_by_desc := [5], p_refs_by_node := [5]\<rparr>),
      kmem_next := 20\<rparr>"
  have nf: "find (\<lambda>r. r_node (refs ?A r) = 8) (p_refs_by_node (procs ?A 1)) = None"
    by (simp add: zero_ref_def)
  have av: "0 < kmem_avail ?A" by (simp add: binder_init_state_def)
  have srt: "sorted_wrt (<) (map (\<lambda>r. r_desc (refs ?A r)) (p_refs_by_desc (procs ?A 1)))"
    by simp
  have bnd: "\<forall>r\<in>set (p_refs_by_desc (procs ?A 1)). r_desc (refs ?A r) < 2 ^ 32 - 1"
    by simp
  have k: "kmem_next ?A = 20" by simp
  have cm: "binder_context_mgr_node ?A = None" by (simp add: binder_init_state_def)
  have d5: "r_desc (refs ?A 5) = 1" "5 \<in> set (p_refs_by_desc (procs ?A 1))" by simp_all
  note T = new_ref_descriptor [OF nf av srt bnd]
  from T have a: "fst (binder_get_ref_for_node ?A 1 8) = Some 20" unfolding k by blast
  from T have "\<forall>r\<in>set (p_refs_by_desc (procs ?A 1)).
      r_desc (refs ?A r) \<noteq> r_desc (refs (snd (binder_get_ref_for_node ?A 1 8)) 20)"
    unfolding k by blast
  with d5 have b: "r_desc (refs (snd (binder_get_ref_for_node ?A 1 8)) 20) \<noteq> 1" by metis
  from T have "(if Some 8 = binder_context_mgr_node ?A then 0 else 1)
      \<le> r_desc (refs (snd (binder_get_ref_for_node ?A 1 8)) 20)"
    unfolding k by blast
  then have c: "1 \<le> r_desc (refs (snd (binder_get_ref_for_node ?A 1 8)) 20)"
    unfolding cm by simp
  from a b c show ?thesis by blast
qed

section \<open>The buffer arena\<close>

subsection \<open>Trees\<close>

lemma inorder_tree_join [simp]: "inorder (tree_join l r) = inorder l @ inorder r"
  by (induction l) auto

lemma set_tree_tree_insert [simp]: "set_tree (tree_insert sz x t) = insert x (set_tree t)"
  by (induction t) auto

lemma set_tree_tree_join [simp]: "set_tree (tree_join l r) = set_tree l \<union> set_tree r"
  by (induction l) auto

lemma set_tree_tree_erase_subset: "set_tree (tree_erase x t) \<subseteq> set_tree t"
  by (induction t) auto





lemma set_inorder_tree_insert [simp]:
  "set (inorder (tree_insert sz x t)) = insert x (set (inorder t))"
  by (induction t) auto

lemma sorted_tree_insert:
  "sorted (map sz (inorder t)) \<Longrightarrow> sorted (map sz (inorder (tree_insert sz x t)))"
  by (induction t) (auto simp: sorted_append)



subsection \<open>The address-ordered list\<close>










subsection \<open>What the arena functions change\<close>


lemma BUG_ON_p_fields [simp]:
  "p_buffer (BUG_ON_p c p) = p_buffer p"
  "p_buffer_size (BUG_ON_p c p) = p_buffer_size p"
  "p_buffers (BUG_ON_p c p) = p_buffers p"
  "p_free_buffers (BUG_ON_p c p) = p_free_buffers p"
  "p_allocated_buffers (BUG_ON_p c p) = p_allocated_buffers p"
  "p_bufs (BUG_ON_p c p) = p_bufs p"
  "p_free_async_space (BUG_ON_p c p) = p_free_async_space p"
  "p_vma (BUG_ON_p c p) = p_vma p"
  by (simp_all add: BUG_ON_p_def)

lemma update_page_range_fields [simp]:
  "p_buffer (snd (binder_update_page_range p al st en m)) = p_buffer p"
  "p_buffer_size (snd (binder_update_page_range p al st en m)) = p_buffer_size p"
  "p_buffers (snd (binder_update_page_range p al st en m)) = p_buffers p"
  "p_free_buffers (snd (binder_update_page_range p al st en m)) = p_free_buffers p"
  "p_allocated_buffers (snd (binder_update_page_range p al st en m)) = p_allocated_buffers p"
  "p_bufs (snd (binder_update_page_range p al st en m)) = p_bufs p"
  "p_free_async_space (snd (binder_update_page_range p al st en m)) = p_free_async_space p"
  "p_vma (snd (binder_update_page_range p al st en m)) = p_vma p"
  by (simp_all add: binder_update_page_range_def)


lemma insert_free_fields [simp]:
  "p_buffer (binder_insert_free_buffer p b) = p_buffer p"
  "p_buffer_size (binder_insert_free_buffer p b) = p_buffer_size p"
  "p_buffers (binder_insert_free_buffer p b) = p_buffers p"
  "p_free_buffers (binder_insert_free_buffer p b) =
     tree_insert (binder_buffer_size p) b (p_free_buffers p)"
  "p_allocated_buffers (binder_insert_free_buffer p b) = p_allocated_buffers p"
  "p_bufs (binder_insert_free_buffer p b) = p_bufs p"
  "p_free_async_space (binder_insert_free_buffer p b) = p_free_async_space p"
  "p_vma (binder_insert_free_buffer p b) = p_vma p"
  by (simp_all add: binder_insert_free_buffer_def Let_def)

lemma insert_allocated_fields [simp]:
  "p_buffer (binder_insert_allocated_buffer p b) = p_buffer p"
  "p_buffer_size (binder_insert_allocated_buffer p b) = p_buffer_size p"
  "p_buffers (binder_insert_allocated_buffer p b) = p_buffers p"
  "p_free_buffers (binder_insert_allocated_buffer p b) = p_free_buffers p"
  "p_allocated_buffers (binder_insert_allocated_buffer p b) =
     insort b (p_allocated_buffers p)"
  "p_bufs (binder_insert_allocated_buffer p b) = p_bufs p"
  "p_free_async_space (binder_insert_allocated_buffer p b) = p_free_async_space p"
  "p_vma (binder_insert_allocated_buffer p b) = p_vma p"
  by (simp_all add: binder_insert_allocated_buffer_def rb_insert_def Let_def)

lemma delete_free_fields [simp]:
  "p_buffer (binder_delete_free_buffer p b) = p_buffer p"
  "p_buffer_size (binder_delete_free_buffer p b) = p_buffer_size p"
  "p_buffers (binder_delete_free_buffer p b) = remove1 b (p_buffers p)"
  "p_free_buffers (binder_delete_free_buffer p b) = p_free_buffers p"
  "p_allocated_buffers (binder_delete_free_buffer p b) = p_allocated_buffers p"
  "p_bufs (binder_delete_free_buffer p b) = p_bufs p"
  "p_free_async_space (binder_delete_free_buffer p b) = p_free_async_space p"
  "p_vma (binder_delete_free_buffer p b) = p_vma p"
  by (simp_all add: binder_delete_free_buffer_def Let_def)





subsection \<open>The arena invariant\<close>
























subsection \<open>The small arena, evaluated\<close>





subsection \<open>The asynchronous quota\<close>





subsection \<open>Best fit\<close>





section \<open>The kernel state\<close>

subsection \<open>What the kernel helpers change\<close>

lemma upd_proc_sel [simp]:
  "procs (upd_proc st p f) = (procs st)(p := f (procs st p))"
  "threads (upd_proc st p f) = threads st"
  "nodes (upd_proc st p f) = nodes st"
  "refs (upd_proc st p f) = refs st"
  "transactions (upd_proc st p f) = transactions st"
  "deaths (upd_proc st p f) = deaths st"
  "files (upd_proc st p f) = files st"
  "queue (upd_proc st p f) = queue st"
  "linked (upd_proc st p f) = linked st"
  "binder_context_mgr_node (upd_proc st p f) = binder_context_mgr_node st"
  "binder_last_id (upd_proc st p f) = binder_last_id st"
  "binder_dead_nodes (upd_proc st p f) = binder_dead_nodes st"
  "binder_stop_on_user_error (upd_proc st p f) = binder_stop_on_user_error st"
  "user_errors (upd_proc st p f) = user_errors st"
  "crashed (upd_proc st p f) = crashed st"
  "wakeups (upd_proc st p f) = wakeups st"
  "heap (upd_proc st p f) = heap st"
  "kmem_next (upd_proc st p f) = kmem_next st"
  "kmem_avail (upd_proc st p f) = kmem_avail st"
  by (simp_all add: upd_proc_def)

lemma upd_thread_sel [simp]:
  "procs (upd_thread st t f) = procs st"
  "threads (upd_thread st t f) = (threads st)(t := f (threads st t))"
  "nodes (upd_thread st t f) = nodes st"
  "refs (upd_thread st t f) = refs st"
  "transactions (upd_thread st t f) = transactions st"
  "deaths (upd_thread st t f) = deaths st"
  "files (upd_thread st t f) = files st"
  "queue (upd_thread st t f) = queue st"
  "linked (upd_thread st t f) = linked st"
  "binder_context_mgr_node (upd_thread st t f) = binder_context_mgr_node st"
  "binder_last_id (upd_thread st t f) = binder_last_id st"
  "binder_dead_nodes (upd_thread st t f) = binder_dead_nodes st"
  "binder_stop_on_user_error (upd_thread st t f) = binder_stop_on_user_error st"
  "user_errors (upd_thread st t f) = user_errors st"
  "crashed (upd_thread st t f) = crashed st"
  "wakeups (upd_thread st t f) = wakeups st"
  "heap (upd_thread st t f) = heap st"
  "kmem_next (upd_thread st t f) = kmem_next st"
  "kmem_avail (upd_thread st t f) = kmem_avail st"
  by (simp_all add: upd_thread_def)

lemma upd_node_sel [simp]:
  "procs (upd_node st n f) = procs st"
  "threads (upd_node st n f) = threads st"
  "nodes (upd_node st n f) = (nodes st)(n := f (nodes st n))"
  "refs (upd_node st n f) = refs st"
  "transactions (upd_node st n f) = transactions st"
  "deaths (upd_node st n f) = deaths st"
  "files (upd_node st n f) = files st"
  "queue (upd_node st n f) = queue st"
  "linked (upd_node st n f) = linked st"
  "binder_context_mgr_node (upd_node st n f) = binder_context_mgr_node st"
  "binder_last_id (upd_node st n f) = binder_last_id st"
  "binder_dead_nodes (upd_node st n f) = binder_dead_nodes st"
  "binder_stop_on_user_error (upd_node st n f) = binder_stop_on_user_error st"
  "user_errors (upd_node st n f) = user_errors st"
  "crashed (upd_node st n f) = crashed st"
  "wakeups (upd_node st n f) = wakeups st"
  "heap (upd_node st n f) = heap st"
  "kmem_next (upd_node st n f) = kmem_next st"
  "kmem_avail (upd_node st n f) = kmem_avail st"
  by (simp_all add: upd_node_def)

lemma upd_ref_sel [simp]:
  "procs (upd_ref st r f) = procs st"
  "threads (upd_ref st r f) = threads st"
  "nodes (upd_ref st r f) = nodes st"
  "refs (upd_ref st r f) = (refs st)(r := f (refs st r))"
  "transactions (upd_ref st r f) = transactions st"
  "deaths (upd_ref st r f) = deaths st"
  "files (upd_ref st r f) = files st"
  "queue (upd_ref st r f) = queue st"
  "linked (upd_ref st r f) = linked st"
  "binder_context_mgr_node (upd_ref st r f) = binder_context_mgr_node st"
  "binder_last_id (upd_ref st r f) = binder_last_id st"
  "binder_dead_nodes (upd_ref st r f) = binder_dead_nodes st"
  "binder_stop_on_user_error (upd_ref st r f) = binder_stop_on_user_error st"
  "user_errors (upd_ref st r f) = user_errors st"
  "crashed (upd_ref st r f) = crashed st"
  "wakeups (upd_ref st r f) = wakeups st"
  "heap (upd_ref st r f) = heap st"
  "kmem_next (upd_ref st r f) = kmem_next st"
  "kmem_avail (upd_ref st r f) = kmem_avail st"
  by (simp_all add: upd_ref_def)

lemma upd_transaction_sel [simp]:
  "procs (upd_transaction st t f) = procs st"
  "threads (upd_transaction st t f) = threads st"
  "nodes (upd_transaction st t f) = nodes st"
  "refs (upd_transaction st t f) = refs st"
  "transactions (upd_transaction st t f) = (transactions st)(t := f (transactions st t))"
  "deaths (upd_transaction st t f) = deaths st"
  "files (upd_transaction st t f) = files st"
  "queue (upd_transaction st t f) = queue st"
  "linked (upd_transaction st t f) = linked st"
  "binder_context_mgr_node (upd_transaction st t f) = binder_context_mgr_node st"
  "binder_last_id (upd_transaction st t f) = binder_last_id st"
  "binder_dead_nodes (upd_transaction st t f) = binder_dead_nodes st"
  "binder_stop_on_user_error (upd_transaction st t f) = binder_stop_on_user_error st"
  "user_errors (upd_transaction st t f) = user_errors st"
  "crashed (upd_transaction st t f) = crashed st"
  "wakeups (upd_transaction st t f) = wakeups st"
  "heap (upd_transaction st t f) = heap st"
  "kmem_next (upd_transaction st t f) = kmem_next st"
  "kmem_avail (upd_transaction st t f) = kmem_avail st"
  by (simp_all add: upd_transaction_def)

lemma upd_death_sel [simp]:
  "procs (upd_death st d f) = procs st"
  "threads (upd_death st d f) = threads st"
  "nodes (upd_death st d f) = nodes st"
  "refs (upd_death st d f) = refs st"
  "transactions (upd_death st d f) = transactions st"
  "deaths (upd_death st d f) = (deaths st)(d := f (deaths st d))"
  "files (upd_death st d f) = files st"
  "queue (upd_death st d f) = queue st"
  "linked (upd_death st d f) = linked st"
  "binder_context_mgr_node (upd_death st d f) = binder_context_mgr_node st"
  "binder_last_id (upd_death st d f) = binder_last_id st"
  "binder_dead_nodes (upd_death st d f) = binder_dead_nodes st"
  "binder_stop_on_user_error (upd_death st d f) = binder_stop_on_user_error st"
  "user_errors (upd_death st d f) = user_errors st"
  "crashed (upd_death st d f) = crashed st"
  "wakeups (upd_death st d f) = wakeups st"
  "heap (upd_death st d f) = heap st"
  "kmem_next (upd_death st d f) = kmem_next st"
  "kmem_avail (upd_death st d f) = kmem_avail st"
  by (simp_all add: upd_death_def)

lemma upd_buffer_sel [simp]:
  "procs (upd_buffer st bp f) = (procs st)(fst bp := (procs st (fst bp))\<lparr>p_bufs := (p_bufs (procs st (fst bp)))(snd bp := f (p_bufs (procs st (fst bp)) (snd bp)))\<rparr>)"
  "threads (upd_buffer st bp f) = threads st"
  "nodes (upd_buffer st bp f) = nodes st"
  "refs (upd_buffer st bp f) = refs st"
  "transactions (upd_buffer st bp f) = transactions st"
  "deaths (upd_buffer st bp f) = deaths st"
  "files (upd_buffer st bp f) = files st"
  "queue (upd_buffer st bp f) = queue st"
  "linked (upd_buffer st bp f) = linked st"
  "binder_context_mgr_node (upd_buffer st bp f) = binder_context_mgr_node st"
  "binder_last_id (upd_buffer st bp f) = binder_last_id st"
  "binder_dead_nodes (upd_buffer st bp f) = binder_dead_nodes st"
  "binder_stop_on_user_error (upd_buffer st bp f) = binder_stop_on_user_error st"
  "user_errors (upd_buffer st bp f) = user_errors st"
  "crashed (upd_buffer st bp f) = crashed st"
  "wakeups (upd_buffer st bp f) = wakeups st"
  "heap (upd_buffer st bp f) = heap st"
  "kmem_next (upd_buffer st bp f) = kmem_next st"
  "kmem_avail (upd_buffer st bp f) = kmem_avail st"
  by (simp_all add: upd_buffer_def upd_proc_def)

lemma kfree_sel [simp]:
  "procs (kfree st a) = procs st"
  "threads (kfree st a) = threads st"
  "nodes (kfree st a) = nodes st"
  "refs (kfree st a) = refs st"
  "transactions (kfree st a) = transactions st"
  "deaths (kfree st a) = deaths st"
  "files (kfree st a) = files st"
  "queue (kfree st a) = queue st"
  "linked (kfree st a) = linked st"
  "binder_context_mgr_node (kfree st a) = binder_context_mgr_node st"
  "binder_last_id (kfree st a) = binder_last_id st"
  "binder_dead_nodes (kfree st a) = binder_dead_nodes st"
  "binder_stop_on_user_error (kfree st a) = binder_stop_on_user_error st"
  "user_errors (kfree st a) = user_errors st"
  "crashed (kfree st a) = crashed st"
  "wakeups (kfree st a) = wakeups st"
  "heap (kfree st a) = heap st - {a}"
  "kmem_next (kfree st a) = kmem_next st"
  "kmem_avail (kfree st a) = kmem_avail st"
  by (simp_all add: kfree_def)

lemma binder_user_error_sel [simp]:
  "procs (binder_user_error st) = procs st"
  "threads (binder_user_error st) = threads st"
  "nodes (binder_user_error st) = nodes st"
  "refs (binder_user_error st) = refs st"
  "transactions (binder_user_error st) = transactions st"
  "deaths (binder_user_error st) = deaths st"
  "files (binder_user_error st) = files st"
  "queue (binder_user_error st) = queue st"
  "linked (binder_user_error st) = linked st"
  "binder_context_mgr_node (binder_user_error st) = binder_context_mgr_node st"
  "binder_last_id (binder_user_error st) = binder_last_id st"
  "binder_dead_nodes (binder_user_error st) = binder_dead_nodes st"
  "binder_stop_on_user_error (binder_user_error st) = (if binder_stop_on_user_error st \<noteq> 0 then 2 else binder_stop_on_user_error st)"
  "user_errors (binder_user_error st) = Suc (user_errors st)"
  "crashed (binder_user_error st) = crashed st"
  "wakeups (binder_user_error st) = wakeups st"
  "heap (binder_user_error st) = heap st"
  "kmem_next (binder_user_error st) = kmem_next st"
  "kmem_avail (binder_user_error st) = kmem_avail st"
  by (simp_all add: binder_user_error_def)

lemma BUG_sel [simp]:
  "procs (BUG st) = procs st"
  "threads (BUG st) = threads st"
  "nodes (BUG st) = nodes st"
  "refs (BUG st) = refs st"
  "transactions (BUG st) = transactions st"
  "deaths (BUG st) = deaths st"
  "files (BUG st) = files st"
  "queue (BUG st) = queue st"
  "linked (BUG st) = linked st"
  "binder_context_mgr_node (BUG st) = binder_context_mgr_node st"
  "binder_last_id (BUG st) = binder_last_id st"
  "binder_dead_nodes (BUG st) = binder_dead_nodes st"
  "binder_stop_on_user_error (BUG st) = binder_stop_on_user_error st"
  "user_errors (BUG st) = user_errors st"
  "crashed (BUG st) = True"
  "wakeups (BUG st) = wakeups st"
  "heap (BUG st) = heap st"
  "kmem_next (BUG st) = kmem_next st"
  "kmem_avail (BUG st) = kmem_avail st"
  by (simp_all add: BUG_def)

lemma BUG_ON_sel [simp]:
  "procs (BUG_ON c st) = procs st"
  "threads (BUG_ON c st) = threads st"
  "nodes (BUG_ON c st) = nodes st"
  "refs (BUG_ON c st) = refs st"
  "transactions (BUG_ON c st) = transactions st"
  "deaths (BUG_ON c st) = deaths st"
  "files (BUG_ON c st) = files st"
  "queue (BUG_ON c st) = queue st"
  "linked (BUG_ON c st) = linked st"
  "binder_context_mgr_node (BUG_ON c st) = binder_context_mgr_node st"
  "binder_last_id (BUG_ON c st) = binder_last_id st"
  "binder_dead_nodes (BUG_ON c st) = binder_dead_nodes st"
  "binder_stop_on_user_error (BUG_ON c st) = binder_stop_on_user_error st"
  "user_errors (BUG_ON c st) = user_errors st"
  "crashed (BUG_ON c st) = (c \<or> crashed st)"
  "wakeups (BUG_ON c st) = wakeups st"
  "heap (BUG_ON c st) = heap st"
  "kmem_next (BUG_ON c st) = kmem_next st"
  "kmem_avail (BUG_ON c st) = kmem_avail st"
  by (simp_all add: BUG_ON_def BUG_def)

lemma wake_up_interruptible_sel [simp]:
  "procs (wake_up_interruptible st q) = procs st"
  "threads (wake_up_interruptible st q) = threads st"
  "nodes (wake_up_interruptible st q) = nodes st"
  "refs (wake_up_interruptible st q) = refs st"
  "transactions (wake_up_interruptible st q) = transactions st"
  "deaths (wake_up_interruptible st q) = deaths st"
  "files (wake_up_interruptible st q) = files st"
  "queue (wake_up_interruptible st q) = queue st"
  "linked (wake_up_interruptible st q) = linked st"
  "binder_context_mgr_node (wake_up_interruptible st q) = binder_context_mgr_node st"
  "binder_last_id (wake_up_interruptible st q) = binder_last_id st"
  "binder_dead_nodes (wake_up_interruptible st q) = binder_dead_nodes st"
  "binder_stop_on_user_error (wake_up_interruptible st q) = binder_stop_on_user_error st"
  "user_errors (wake_up_interruptible st q) = user_errors st"
  "crashed (wake_up_interruptible st q) = crashed st"
  "wakeups (wake_up_interruptible st q) = wakeups st @ [q]"
  "heap (wake_up_interruptible st q) = heap st"
  "kmem_next (wake_up_interruptible st q) = kmem_next st"
  "kmem_avail (wake_up_interruptible st q) = kmem_avail st"
  by (simp_all add: wake_up_interruptible_def)

lemma list_add_tail_sel [simp]:
  "procs (list_add_tail st w L) = procs st"
  "threads (list_add_tail st w L) = threads st"
  "nodes (list_add_tail st w L) = nodes st"
  "refs (list_add_tail st w L) = refs st"
  "transactions (list_add_tail st w L) = transactions st"
  "deaths (list_add_tail st w L) = deaths st"
  "files (list_add_tail st w L) = files st"
  "queue (list_add_tail st w L) = (queue st)(L := queue st L @ [w])"
  "linked (list_add_tail st w L) = (linked st)(w := Some L)"
  "binder_context_mgr_node (list_add_tail st w L) = binder_context_mgr_node st"
  "binder_last_id (list_add_tail st w L) = binder_last_id st"
  "binder_dead_nodes (list_add_tail st w L) = binder_dead_nodes st"
  "binder_stop_on_user_error (list_add_tail st w L) = binder_stop_on_user_error st"
  "user_errors (list_add_tail st w L) = user_errors st"
  "crashed (list_add_tail st w L) = crashed st"
  "wakeups (list_add_tail st w L) = wakeups st"
  "heap (list_add_tail st w L) = heap st"
  "kmem_next (list_add_tail st w L) = kmem_next st"
  "kmem_avail (list_add_tail st w L) = kmem_avail st"
  by (simp_all add: list_add_tail_def)

lemma list_add_sel [simp]:
  "procs (list_add st w L) = procs st"
  "threads (list_add st w L) = threads st"
  "nodes (list_add st w L) = nodes st"
  "refs (list_add st w L) = refs st"
  "transactions (list_add st w L) = transactions st"
  "deaths (list_add st w L) = deaths st"
  "files (list_add st w L) = files st"
  "queue (list_add st w L) = (queue st)(L := w # queue st L)"
  "linked (list_add st w L) = (linked st)(w := Some L)"
  "binder_context_mgr_node (list_add st w L) = binder_context_mgr_node st"
  "binder_last_id (list_add st w L) = binder_last_id st"
  "binder_dead_nodes (list_add st w L) = binder_dead_nodes st"
  "binder_stop_on_user_error (list_add st w L) = binder_stop_on_user_error st"
  "user_errors (list_add st w L) = user_errors st"
  "crashed (list_add st w L) = crashed st"
  "wakeups (list_add st w L) = wakeups st"
  "heap (list_add st w L) = heap st"
  "kmem_next (list_add st w L) = kmem_next st"
  "kmem_avail (list_add st w L) = kmem_avail st"
  by (simp_all add: list_add_def)

lemma list_del_sel [simp]:
  "procs (list_del st w) = procs st"
  "threads (list_del st w) = threads st"
  "nodes (list_del st w) = nodes st"
  "refs (list_del st w) = refs st"
  "transactions (list_del st w) = transactions st"
  "deaths (list_del st w) = deaths st"
  "files (list_del st w) = files st"
  "queue (list_del st w) = (\<lambda>L. removeAll w (queue st L))"
  "linked (list_del st w) = (linked st)(w := None)"
  "binder_context_mgr_node (list_del st w) = binder_context_mgr_node st"
  "binder_last_id (list_del st w) = binder_last_id st"
  "binder_dead_nodes (list_del st w) = binder_dead_nodes st"
  "binder_stop_on_user_error (list_del st w) = binder_stop_on_user_error st"
  "user_errors (list_del st w) = user_errors st"
  "crashed (list_del st w) = crashed st"
  "wakeups (list_del st w) = wakeups st"
  "heap (list_del st w) = heap st"
  "kmem_next (list_del st w) = kmem_next st"
  "kmem_avail (list_del st w) = kmem_avail st"
  by (simp_all add: list_del_def)

lemma list_del_init_sel [simp]:
  "procs (list_del_init st w) = procs st"
  "threads (list_del_init st w) = threads st"
  "nodes (list_del_init st w) = nodes st"
  "refs (list_del_init st w) = refs st"
  "transactions (list_del_init st w) = transactions st"
  "deaths (list_del_init st w) = deaths st"
  "files (list_del_init st w) = files st"
  "queue (list_del_init st w) = (\<lambda>L. removeAll w (queue st L))"
  "linked (list_del_init st w) = (linked st)(w := None)"
  "binder_context_mgr_node (list_del_init st w) = binder_context_mgr_node st"
  "binder_last_id (list_del_init st w) = binder_last_id st"
  "binder_dead_nodes (list_del_init st w) = binder_dead_nodes st"
  "binder_stop_on_user_error (list_del_init st w) = binder_stop_on_user_error st"
  "user_errors (list_del_init st w) = user_errors st"
  "crashed (list_del_init st w) = crashed st"
  "wakeups (list_del_init st w) = wakeups st"
  "heap (list_del_init st w) = heap st"
  "kmem_next (list_del_init st w) = kmem_next st"
  "kmem_avail (list_del_init st w) = kmem_avail st"
  by (simp_all add: list_del_init_def list_del_def)

lemma list_move_sel [simp]:
  "procs (list_move st w L) = procs st"
  "threads (list_move st w L) = threads st"
  "nodes (list_move st w L) = nodes st"
  "refs (list_move st w L) = refs st"
  "transactions (list_move st w L) = transactions st"
  "deaths (list_move st w L) = deaths st"
  "files (list_move st w L) = files st"
  "queue (list_move st w L) = (\<lambda>M. if M = L then w # removeAll w (queue st L) else removeAll w (queue st M))"
  "linked (list_move st w L) = (linked st)(w := Some L)"
  "binder_context_mgr_node (list_move st w L) = binder_context_mgr_node st"
  "binder_last_id (list_move st w L) = binder_last_id st"
  "binder_dead_nodes (list_move st w L) = binder_dead_nodes st"
  "binder_stop_on_user_error (list_move st w L) = binder_stop_on_user_error st"
  "user_errors (list_move st w L) = user_errors st"
  "crashed (list_move st w L) = crashed st"
  "wakeups (list_move st w L) = wakeups st"
  "heap (list_move st w L) = heap st"
  "kmem_next (list_move st w L) = kmem_next st"
  "kmem_avail (list_move st w L) = kmem_avail st"
  by (simp_all add: list_move_def list_add_def list_del_def fun_eq_iff)

lemma list_move_tail_sel [simp]:
  "procs (list_move_tail st w L) = procs st"
  "threads (list_move_tail st w L) = threads st"
  "nodes (list_move_tail st w L) = nodes st"
  "refs (list_move_tail st w L) = refs st"
  "transactions (list_move_tail st w L) = transactions st"
  "deaths (list_move_tail st w L) = deaths st"
  "files (list_move_tail st w L) = files st"
  "queue (list_move_tail st w L) = (\<lambda>M. if M = L then removeAll w (queue st L) @ [w] else removeAll w (queue st M))"
  "linked (list_move_tail st w L) = (linked st)(w := Some L)"
  "binder_context_mgr_node (list_move_tail st w L) = binder_context_mgr_node st"
  "binder_last_id (list_move_tail st w L) = binder_last_id st"
  "binder_dead_nodes (list_move_tail st w L) = binder_dead_nodes st"
  "binder_stop_on_user_error (list_move_tail st w L) = binder_stop_on_user_error st"
  "user_errors (list_move_tail st w L) = user_errors st"
  "crashed (list_move_tail st w L) = crashed st"
  "wakeups (list_move_tail st w L) = wakeups st"
  "heap (list_move_tail st w L) = heap st"
  "kmem_next (list_move_tail st w L) = kmem_next st"
  "kmem_avail (list_move_tail st w L) = kmem_avail st"
  by (simp_all add: list_move_tail_def list_add_tail_def list_del_def fun_eq_iff)

end
